theory Spec2Isabelle
  imports Complex_Main "HOL-Library.Sublist" "HOL-Library.AList"
begin

section \<open>Python strings\<close>

text \<open>
  A Python \<open>str\<close> is a sequence of Unicode code points, and \<open>len\<close>, slicing,
  \<open>strip\<close>, \<open>startswith\<close>, \<open>in\<close>, \<open>count\<close> and \<open>replace\<close> all work on code
  points. A string is therefore a list of code points; \<open>ascii\<close> embeds an ASCII literal.
\<close>

type_synonym ustr = "nat list"

definition ascii :: "string \<Rightarrow> ustr" where
  "ascii s = map of_char s"

text \<open>
  \<open>str.isspace\<close> for one code point, as CPython decides it: the ASCII table
  (\<open>0x09-0x0D\<close>, \<open>0x1C-0x1F\<close>, \<open>0x20\<close>) and the Unicode white-space code points.
\<close>

definition isspace :: "nat \<Rightarrow> bool" where
  "isspace c \<longleftrightarrow>
     (9 \<le> c \<and> c \<le> 13) \<or> (28 \<le> c \<and> c \<le> 32) \<or> c = 133 \<or> c = 160 \<or> c = 5760 \<or>
     (8192 \<le> c \<and> c \<le> 8202) \<or> c = 8232 \<or> c = 8233 \<or> c = 8239 \<or> c = 8287 \<or>
     c = 12288"

text \<open>\<open>s.strip()\<close>: white space removed at both ends.\<close>

definition strip :: "ustr \<Rightarrow> ustr" where
  "strip s = rev (dropWhile isspace (rev (dropWhile isspace s)))"

text \<open>\<open>s.startswith(p)\<close>.\<close>

definition startswith :: "ustr \<Rightarrow> ustr \<Rightarrow> bool" where
  "startswith s p \<longleftrightarrow> take (length p) s = p"

text \<open>
  \<open>word in text\<close> for two strings: \<open>word\<close> occurs in \<open>text\<close> as a contiguous
  substring.
\<close>

fun py_in :: "ustr \<Rightarrow> ustr \<Rightarrow> bool" where
  "py_in word [] \<longleftrightarrow> word = []"
| "py_in word (c # s) \<longleftrightarrow> prefix word (c # s) \<or> py_in word s"

text \<open>
  \<open>s.replace(old, new)\<close>: the occurrences of \<open>old\<close> are found from the left and do not
  overlap; with an empty \<open>old\<close>, \<open>new\<close> is put before every character and at the end.
\<close>

function py_replace :: "ustr \<Rightarrow> ustr \<Rightarrow> ustr \<Rightarrow> ustr" where
  "py_replace [] old new = (if old = [] then new else [])"
| "py_replace (c # s) old new =
     (if old = [] then new @ c # py_replace s old new
      else if prefix old (c # s) then new @ py_replace (drop (length old) (c # s)) old new
      else c # py_replace s old new)"
  by pat_completeness auto
termination
  by (relation "measure (\<lambda>(s, old, new). length s)") auto

text \<open>\<open>d.get(key, default)\<close> on a dictionary of strings.\<close>

definition dict_get :: "(ustr \<rightharpoonup> ustr) \<Rightarrow> ustr \<Rightarrow> ustr \<Rightarrow> ustr" where
  "dict_get d key dflt = (case d key of None \<Rightarrow> dflt | Some v \<Rightarrow> v)"

section \<open>The sheet reader (\<open>sheet_reader.py\<close>)\<close>

text \<open>
  The dictionary built for one data row. Its keys are fixed, so it is a record; the
  fields keep the keys' names.
\<close>

record test_case =
  test_id :: ustr
  description :: ustr
  steps :: ustr
  expected_result :: ustr
  priority :: ustr
  row_number :: nat
  status :: ustr
  error_message :: ustr
  screenshot_url :: ustr

text \<open>
  The body of the \<open>for row_idx in range(3, len(all_values))\<close> loop for one row: \<open>None\<close>
  is \<open>continue\<close>, \<open>Some tc\<close> is the dictionary appended. Each \<open>row[i] ... if len(row) > i
  else default\<close> is written as the source has it.
\<close>

definition read_row :: "nat \<Rightarrow> ustr list \<Rightarrow> test_case option" where
  "read_row row_idx row =
     (if row = [] \<or> row ! 0 = [] \<or> strip (row ! 0) = [] then None
      else
        let test_id = (if length row > 0 then strip (row ! 0) else []);
            description = (if length row > 1 then strip (row ! 1) else []);
            steps = (if length row > 2 then strip (row ! 2) else []);
            expected_result = (if length row > 3 then strip (row ! 3) else []);
            priority = (if length row > 4 then strip (row ! 4) else ascii ''Medium'')
        in if \<not> startswith test_id (ascii ''TC'') then None
           else Some \<lparr>test_id = test_id, description = description, steps = steps,
                       expected_result = expected_result, priority = priority,
                       row_number = row_idx + 1, status = [], error_message = [],
                       screenshot_url = []\<rparr>)"

text \<open>
  The loop itself: \<open>read_rows row_idx rows\<close> runs the body on \<open>rows\<close>, the first of which
  has index \<open>row_idx\<close>, and returns what was appended to \<open>test_cases\<close>, in order.
\<close>

fun read_rows :: "nat \<Rightarrow> ustr list list \<Rightarrow> test_case list" where
  "read_rows row_idx [] = []"
| "read_rows row_idx (row # rows) =
     (case read_row row_idx row of
        None \<Rightarrow> read_rows (Suc row_idx) rows
      | Some tc \<Rightarrow> tc # read_rows (Suc row_idx) rows)"

text \<open>
  What the spreadsheet service can answer. \<open>connect\<close> fails with a message or gives the
  spreadsheet; \<open>spreadsheet.worksheet(name)\<close> raises when there is no such worksheet;
  \<open>get_all_values\<close> gives the rows (lists of cell strings) or raises.
\<close>

datatype fetched = FetchRaised ustr | Values "ustr list list"

datatype reader_conn = ConnectFailed ustr | Connected "ustr \<rightharpoonup> fetched"

text \<open>
  \<open>SheetReader.read_test_cases\<close>: \<open>(success, test_cases, error_message)\<close>. The header
  check of row 3 only prints warnings and is left out with the other printing.
\<close>

definition read_test_cases :: "reader_conn \<Rightarrow> ustr \<Rightarrow> bool \<times> test_case list \<times> ustr option" where
  "read_test_cases conn worksheet_name =
     (case conn of
        ConnectFailed error \<Rightarrow> (False, [], Some (ascii ''Failed to connect: '' @ error))
      | Connected spreadsheet \<Rightarrow>
          (case spreadsheet worksheet_name of
             None \<Rightarrow> (False, [], Some (ascii ''Worksheet not found: '' @ worksheet_name))
           | Some (FetchRaised e) \<Rightarrow> (False, [], Some (ascii ''Error reading test cases: '' @ e))
           | Some (Values all_values) \<Rightarrow>
               if length all_values < 4
               then (False, [], Some (ascii ''Worksheet has insufficient data (need at least 4 rows)''))
               else (True, read_rows 3 (drop 3 all_values), None)))"

text \<open>
  The rows the reader keeps and the test case it builds from one, as the description of
  the reader words them: a row is kept when its first cell, stripped, is not empty and
  starts with \<open>TC\<close>; a cell is stripped, and a cell the row does not have takes the
  default.
\<close>

definition included :: "ustr list \<Rightarrow> bool" where
  "included row \<longleftrightarrow>
     row \<noteq> [] \<and> strip (hd row) \<noteq> [] \<and> startswith (strip (hd row)) (ascii ''TC'')"

definition cell :: "ustr list \<Rightarrow> nat \<Rightarrow> ustr \<Rightarrow> ustr" where
  "cell row i dflt = (if i < length row then strip (row ! i) else dflt)"

definition expected_case :: "nat \<Rightarrow> ustr list \<Rightarrow> test_case" where
  "expected_case n row =
     \<lparr>test_id = cell row 0 [], description = cell row 1 [], steps = cell row 2 [],
      expected_result = cell row 3 [], priority = cell row 4 (ascii ''Medium''),
      row_number = n, status = [], error_message = [], screenshot_url = []\<rparr>"

section \<open>Module classification (\<open>code_generator.py\<close>)\<close>

text \<open>
  \<open>CodeGenerator._detect_module\<close>. The test case is a dictionary of strings, read with
  \<open>get(key, '')\<close>. \<open>str.lower\<close> is Unicode lower-casing and is a parameter. Each
  \<open>any(word in description or word in steps for word in [...])\<close> is a \<open>list_ex\<close> over
  the source's keyword list, in the source's order; the Vietnamese keywords are written
  as their code points.
\<close>

definition kw_contract :: "ustr list" where
  "kw_contract =
     [[104, 7907, 112, 32, 273, 7891, 110, 103],   \<comment> \<open>Vietnamese, without its diacritics: hop dong\<close>
      ascii ''ctv'', ascii ''contract'']"

definition kw_lead :: "ustr list" where
  "kw_lead =
     [ascii ''lead'',
      [107, 104, 225, 99, 104, 32, 104, 224, 110, 103, 32, 116, 105, 7873, 109, 32,
       110, 259, 110, 103]]   \<comment> \<open>Vietnamese, without its diacritics: khach hang tiem nang\<close>"

definition kw_product :: "ustr list" where
  "kw_product =
     [[115, 7843, 110, 32, 112, 104, 7849, 109],   \<comment> \<open>Vietnamese, without its diacritics: san pham\<close>
      ascii ''product'']"

definition kw_deeplink :: "ustr list" where
  "kw_deeplink = [ascii ''deeplink'', ascii ''link'']"

definition kw_report :: "ustr list" where
  "kw_report =
     [[98, 225, 111, 32, 99, 225, 111],   \<comment> \<open>Vietnamese, without its diacritics: bao cao\<close>
      ascii ''report'', ascii ''dashboard'']"

definition kw_settings :: "ustr list" where
  "kw_settings =
     [[99, 224, 105, 32, 273, 7863, 116],   \<comment> \<open>Vietnamese, without its diacritics: cai dat\<close>
      ascii ''setting'', ascii ''kpi'']"

definition kw_profile :: "ustr list" where
  "kw_profile =
     [ascii ''profile'',
      [104, 7891, 32, 115, 417],   \<comment> \<open>Vietnamese, without its diacritics: ho so\<close>
      [116, 224, 105, 32, 107, 104, 111, 7843, 110]]   \<comment> \<open>Vietnamese, without its diacritics: tai khoan\<close>"

definition detect_module :: "(ustr \<Rightarrow> ustr) \<Rightarrow> (ustr \<rightharpoonup> ustr) \<Rightarrow> ustr" where
  "detect_module lower test_case =
     (let description = lower (dict_get test_case (ascii ''description'') []);
          steps = lower (dict_get test_case (ascii ''steps'') [])
      in if list_ex (\<lambda>word. py_in word description \<or> py_in word steps) kw_contract
         then ascii ''contract''
         else if list_ex (\<lambda>word. py_in word description \<or> py_in word steps) kw_lead
         then ascii ''lead''
         else if list_ex (\<lambda>word. py_in word description \<or> py_in word steps) kw_product
         then ascii ''product''
         else if list_ex (\<lambda>word. py_in word description \<or> py_in word steps) kw_deeplink
         then ascii ''deeplink''
         else if list_ex (\<lambda>word. py_in word description \<or> py_in word steps) kw_report
         then ascii ''report''
         else if list_ex (\<lambda>word. py_in word description \<or> py_in word steps) kw_settings
         then ascii ''settings''
         else if list_ex (\<lambda>word. py_in word description \<or> py_in word steps) kw_profile
         then ascii ''profile''
         else ascii ''contract'')"

text \<open>
  The classification as the specification words it: an ordered list of (tag, keywords)
  pairs, tested in sequence on the two lower-cased texts; the first pair with a keyword
  that occurs in either text gives the tag, and \<open>contract\<close> is the default.
\<close>

definition keyword_groups :: "(ustr \<times> ustr list) list" where
  "keyword_groups =
     [(ascii ''contract'', kw_contract), (ascii ''lead'', kw_lead),
      (ascii ''product'', kw_product), (ascii ''deeplink'', kw_deeplink),
      (ascii ''report'', kw_report), (ascii ''settings'', kw_settings),
      (ascii ''profile'', kw_profile)]"

definition group_matches :: "ustr \<Rightarrow> ustr \<Rightarrow> ustr \<times> ustr list \<Rightarrow> bool" where
  "group_matches desc stps g \<longleftrightarrow>
     (\<exists>word \<in> set (snd g). sublist word desc \<or> sublist word stps)"

definition classify :: "ustr \<Rightarrow> ustr \<Rightarrow> ustr" where
  "classify desc stps =
     (case find (group_matches desc stps) keyword_groups of
        None \<Rightarrow> ascii ''contract''
      | Some g \<Rightarrow> fst g)"

section \<open>URL lookup (\<open>url_manager.py\<close>)\<close>

text \<open>
  The loaded mapping file: \<open>base_url\<close> and, for every module, a dictionary from action to
  path template. Dictionaries are association lists read with \<open>map_of\<close>.
\<close>

record url_manager =
  urls :: "(ustr \<times> (ustr \<times> ustr) list) list"
  base_url :: ustr

text \<open>
  The loop \<open>for key, value in kwargs.items(): path = path.replace("{key}", str(value))\<close>.
  \<open>kwargs\<close> is the keyword dictionary in its order, each value already turned into its
  text by \<open>str\<close>; code points 123 and 125 are the braces.
\<close>

fun substitute :: "(ustr \<times> ustr) list \<Rightarrow> ustr \<Rightarrow> ustr" where
  "substitute [] path = path"
| "substitute ((key, val) # kwargs) path =
     substitute kwargs (py_replace path ([123] @ key @ [125]) val)"

text \<open>
  \<open>URLManager.get\<close>: \<open>None\<close> when the module or the action is missing or empty
  (\<open>if not module_urls\<close>, \<open>if not path\<close>), else the base URL followed by the path
  with the variables replaced.
\<close>

definition get :: "url_manager \<Rightarrow> ustr \<Rightarrow> ustr \<Rightarrow> (ustr \<times> ustr) list \<Rightarrow> ustr option" where
  "get m module_name action kwargs =
     (case map_of (urls m) module_name of
        None \<Rightarrow> None
      | Some module_urls \<Rightarrow>
          if module_urls = [] then None
          else (case map_of module_urls action of
                  None \<Rightarrow> None
                | Some path \<Rightarrow>
                    if path = [] then None
                    else Some (base_url m @ substitute kwargs path)))"

text \<open>
  Template substitution as the specification words it. A template is a sequence of
  literal text and \<open>{name}\<close> placeholders; every placeholder whose name is among the
  supplied pairs is replaced by the corresponding value, the others stay as they are.
\<close>

datatype segment = Lit ustr | Hole ustr

fun render :: "segment list \<Rightarrow> ustr" where
  "render [] = []"
| "render (Lit t # segs) = t @ render segs"
| "render (Hole n # segs) = [123] @ n @ [125] @ render segs"

fun fill :: "(ustr \<times> ustr) list \<Rightarrow> segment \<Rightarrow> ustr" where
  "fill kwargs (Lit t) = t"
| "fill kwargs (Hole n) = (case map_of kwargs n of Some v \<Rightarrow> v | None \<Rightarrow> [123] @ n @ [125])"

definition filled :: "(ustr \<times> ustr) list \<Rightarrow> segment list \<Rightarrow> ustr" where
  "filled kwargs segs = concat (map (fill kwargs) segs)"

definition brace_free :: "ustr \<Rightarrow> bool" where
  "brace_free s \<longleftrightarrow> 123 \<notin> set s \<and> 125 \<notin> set s"

fun seg_text :: "segment \<Rightarrow> ustr" where
  "seg_text (Lit t) = t"
| "seg_text (Hole n) = n"

text \<open>One replacement, of the placeholder \<open>{k}\<close> by \<open>v\<close>, on a template.\<close>

fun fill_one :: "ustr \<Rightarrow> ustr \<Rightarrow> segment \<Rightarrow> segment" where
  "fill_one k v (Lit t) = Lit t"
| "fill_one k v (Hole n) = (if n = k then Lit v else Hole n)"

section \<open>The result reporter (\<open>result_reporter.py\<close>)\<close>

text \<open>
  The remote worksheet: its grid of cells (rows of cell texts), the cell writes made so
  far, and for each of the coming remote calls whether it raises (no call raises once
  the list is used up).
\<close>

record worksheet =
  cells :: "ustr list list"
  writes :: "(nat \<times> nat \<times> ustr) list"
  faults :: "bool list"

definition next_call :: "worksheet \<Rightarrow> bool \<times> worksheet" where
  "next_call ws = (case faults ws of [] \<Rightarrow> (False, ws) | f # fs \<Rightarrow> (f, ws\<lparr>faults := fs\<rparr>))"

text \<open>
  \<open>worksheet.row_values(r)\<close>: the cells of row \<open>r\<close> (counted from 1) up to the last
  one that is not empty (\<open>trim\<close>); \<open>None\<close> when the call raises.
\<close>

definition trim :: "ustr list \<Rightarrow> ustr list" where
  "trim row = rev (dropWhile (\<lambda>c. c = []) (rev row))"

definition row_values :: "worksheet \<Rightarrow> nat \<Rightarrow> ustr list option \<times> worksheet" where
  "row_values ws r =
     (case next_call ws of
        (True, ws') \<Rightarrow> (None, ws')
      | (False, ws') \<Rightarrow>
          (Some (if 0 < r \<and> r \<le> length (cells ws') then trim (cells ws' ! (r - 1)) else []),
           ws'))"

text \<open>
  \<open>worksheet.update_cell(r, c, v)\<close>: the grid grows with empty cells as far as the
  written cell; \<open>False\<close> when the call raises, and then nothing is written.
\<close>

definition pad :: "nat \<Rightarrow> 'a \<Rightarrow> 'a list \<Rightarrow> 'a list" where
  "pad n d xs = xs @ replicate (n - length xs) d"

definition set_cell :: "nat \<Rightarrow> nat \<Rightarrow> ustr \<Rightarrow> ustr list list \<Rightarrow> ustr list list" where
  "set_cell r c v g =
     (let g' = pad r [] g
      in g'[r - 1 := (pad c [] (g' ! (r - 1)))[c - 1 := v]])"

definition update_cell :: "worksheet \<Rightarrow> nat \<Rightarrow> nat \<Rightarrow> ustr \<Rightarrow> bool \<times> worksheet" where
  "update_cell ws r c v =
     (case next_call ws of
        (True, ws') \<Rightarrow> (False, ws')
      | (False, ws') \<Rightarrow>
          (True, ws'\<lparr>cells := set_cell r c v (cells ws'), writes := writes ws' @ [(r, c, v)]\<rparr>))"

text \<open>
  The loop \<open>for row, col, value in updates_needed: worksheet.update_cell(row, col,
  value)\<close>; a call that raises ends it in the \<open>except\<close> branch, which returns
  \<open>False\<close>.
\<close>

fun apply_updates :: "worksheet \<Rightarrow> (nat \<times> nat \<times> ustr) list \<Rightarrow> bool \<times> worksheet" where
  "apply_updates ws [] = (True, ws)"
| "apply_updates ws ((r, c, v) # us) =
     (case update_cell ws r c v of
        (False, ws') \<Rightarrow> (False, ws')
      | (True, ws') \<Rightarrow> apply_updates ws' us)"

text \<open>\<open>ResultReporter._ensure_result_columns\<close>.\<close>

definition ensure_result_columns :: "worksheet \<Rightarrow> bool \<times> worksheet" where
  "ensure_result_columns ws =
     (case row_values ws 3 of
        (None, ws1) \<Rightarrow> (False, ws1)
      | (Some headers, ws1) \<Rightarrow>
          let current_cols = length headers;
              updates_needed =
                (if current_cols < 7 \<or>
                    (current_cols \<ge> 7 \<and> (headers ! 6 = [] \<or> strip (headers ! 6) = []))
                 then [(3, 7, ascii ''Error Message'')] else []) @
                (if current_cols < 8 \<or>
                    (current_cols \<ge> 8 \<and> (headers ! 7 = [] \<or> strip (headers ! 7) = []))
                 then [(3, 8, ascii ''Screenshot'')] else [])
          in if updates_needed \<noteq> [] then apply_updates ws1 updates_needed else (True, ws1))"

text \<open>
  A worksheet that has the two result columns: row 3 reaches column 8 and its cells in
  columns 7 and 8 are not blank.
\<close>

definition has_result_columns :: "worksheet \<Rightarrow> bool" where
  "has_result_columns ws \<longleftrightarrow>
     3 \<le> length (cells ws) \<and> 8 \<le> length (cells ws ! 2) \<and>
     strip (cells ws ! 2 ! 6) \<noteq> [] \<and> strip (cells ws ! 2 ! 7) \<noteq> []"

text \<open>Row 3 of a grid, empty when the grid has fewer than three rows.\<close>

definition row3 :: "ustr list list \<Rightarrow> ustr list" where
  "row3 g = (if 3 \<le> length g then g ! 2 else [])"

section \<open>The test runner (\<open>playwright_runner.py\<close>)\<close>

text \<open>
  What leaves a function instead of a return value: an exception of class \<open>Exception\<close>
  with its text \<open>str(e)\<close>, or one outside that class (\<open>KeyboardInterrupt\<close>,
  \<open>SystemExit\<close>, \<open>asyncio.CancelledError\<close>), which \<open>except Exception\<close> does not
  catch.
\<close>

datatype exn = Exception ustr | BaseException

datatype 'a outcome = Returns 'a | Raises exn

text \<open>The runner's attributes; each is \<open>None\<close> (\<open>False\<close>) until it is assigned.\<close>

record runner =
  playwright :: bool
  browser :: bool
  browser_context :: bool   \<comment> \<open>the attribute \<open>context\<close>\<close>
  page :: bool

text \<open>
  What the browser does during one run. Every constructor is one way through the
  function it belongs to; the texts are the \<open>str(e)\<close> of the exception caught there.
  \<open>StartFails n e\<close>: an exception was raised in \<open>start_browser\<close> after \<open>n\<close> of the
  four attributes \<open>playwright\<close>, \<open>browser\<close>, \<open>context\<close>, \<open>page\<close> had been assigned.
  The \<open>Escapes\<close> constructors are the exceptions that leave the function.
\<close>

datatype start_event = Launched | StartFails nat ustr | StartEscapes nat exn

datatype shot_event = Saved ustr | ShotFails ustr | ShotInterrupted

datatype login_event =
    GotoFails ustr | NoLoginPage | NoUsernameField | NoPasswordField | NoLoginButton
  | WaitFails ustr | StillOnLoginPage | LoggedIn | LoginEscapes exn

datatype exec_event =
    FileMissing | LoadFails ustr | EntryMissing | TestReturns bool | TestTimesOut
  | TestFails ustr | ExecEscapes exn

record world =
  on_start :: start_event
  on_login :: login_event
  on_exec :: exec_event
  on_shot :: "ustr \<Rightarrow> shot_event"   \<comment> \<open>by the reason tag of the screenshot\<close>
  elapsed :: rat                        \<comment> \<open>seconds between the two clock readings\<close>

definition assigned :: "nat \<Rightarrow> runner \<Rightarrow> runner" where
  "assigned n r =
     r\<lparr>playwright := playwright r \<or> 0 < n, browser := browser r \<or> 1 < n,
       browser_context := browser_context r \<or> 2 < n, page := page r \<or> 3 < n\<rparr>"

text \<open>\<open>PlaywrightRunner.start_browser\<close>: \<open>(success, error_message)\<close>.\<close>

definition start_browser :: "world \<Rightarrow> runner \<Rightarrow> (bool \<times> ustr option) outcome \<times> runner" where
  "start_browser w r =
     (case on_start w of
        Launched \<Rightarrow> (Returns (True, None), assigned 4 r)
      | StartFails n e \<Rightarrow>
          (Returns (False, Some (ascii ''Failed to start browser: '' @ e)), assigned n r)
      | StartEscapes n x \<Rightarrow> (Raises x, assigned n r))"

text \<open>\<open>os.path.join(a, b)\<close> for POSIX paths; code point 47 is the slash.\<close>

definition path_join :: "ustr \<Rightarrow> ustr \<Rightarrow> ustr" where
  "path_join a b =
     (if b \<noteq> [] \<and> hd b = 47 then b
      else if a = [] \<or> last a = 47 then a @ b
      else a @ [47] @ b)"

text \<open>
  \<open>PlaywrightRunner._capture_screenshot\<close>: the path of the file, or \<open>None\<close> when
  taking the screenshot fails. \<open>Saved t\<close> carries the time stamp of the file name.
\<close>

definition capture_screenshot :: "ustr \<Rightarrow> world \<Rightarrow> ustr \<Rightarrow> ustr \<Rightarrow> ustr option outcome" where
  "capture_screenshot screenshot_dir w tid reason =
     (case on_shot w reason of
        Saved timestamp \<Rightarrow>
          Returns (Some (path_join screenshot_dir
            (tid @ ascii ''_'' @ reason @ ascii ''_'' @ timestamp @ ascii ''.png'')))
      | ShotFails e \<Rightarrow> Returns None
      | ShotInterrupted \<Rightarrow> Raises BaseException)"

text \<open>\<open>PlaywrightRunner.login\<close>: \<open>(success, error_message)\<close>.\<close>

definition login :: "ustr \<Rightarrow> world \<Rightarrow> (bool \<times> ustr option) outcome" where
  "login screenshot_dir w =
     (case on_login w of
        GotoFails e \<Rightarrow> Returns (False, Some (ascii ''Login error: '' @ e))
      | NoLoginPage \<Rightarrow> Returns (True, None)
      | NoUsernameField \<Rightarrow> Returns (False, Some (ascii ''Could not find username input field''))
      | NoPasswordField \<Rightarrow> Returns (False, Some (ascii ''Could not find password input field''))
      | NoLoginButton \<Rightarrow> Returns (False, Some (ascii ''Could not find login button''))
      | WaitFails e \<Rightarrow> Returns (False, Some (ascii ''Login timeout: '' @ e))
      | StillOnLoginPage \<Rightarrow>
          (case capture_screenshot screenshot_dir w (ascii ''LOGIN'') (ascii ''still_on_login_page'') of
             Returns screenshot_path \<Rightarrow>
               Returns (False, Some (ascii ''Login failed - still on login page''))
           | Raises x \<Rightarrow> Raises x)
      | LoggedIn \<Rightarrow> Returns (True, None)
      | LoginEscapes x \<Rightarrow> Raises x)"

text \<open>
  \<open>PlaywrightRunner.execute_test_code\<close>: \<open>(success, error_message,
  screenshot_path)\<close>. \<open>lower\<close> is \<open>str.lower\<close>; code point 39 is the quote in the
  message.
\<close>

definition execute_test_code ::
  "(ustr \<Rightarrow> ustr) \<Rightarrow> ustr \<Rightarrow> world \<Rightarrow> ustr \<Rightarrow> ustr \<Rightarrow> (bool \<times> ustr option \<times> ustr option) outcome" where
  "execute_test_code lower screenshot_dir w tid code_file =
     (case on_exec w of
        FileMissing \<Rightarrow> Returns (False, Some (ascii ''Code file not found: '' @ code_file), None)
      | LoadFails e \<Rightarrow> Returns (False, Some (ascii ''Failed to execute test: '' @ e), None)
      | EntryMissing \<Rightarrow>
          Returns (False, Some (ascii ''Test function '' @ [39] @ ascii ''test_'' @ lower tid @ [39] @
                                ascii '' not found in module''), None)
      | TestReturns res \<Rightarrow>
          if res then Returns (True, None, None)
          else (case capture_screenshot screenshot_dir w tid (ascii ''assertion_failed'') of
                  Returns screenshot_path \<Rightarrow>
                    Returns (False, Some (ascii ''Test assertions failed''), screenshot_path)
                | Raises x \<Rightarrow> Raises x)
      | TestTimesOut \<Rightarrow>
          (case capture_screenshot screenshot_dir w tid (ascii ''timeout'') of
             Returns screenshot_path \<Rightarrow>
               Returns (False, Some (ascii ''Test execution timeout (120s)''), screenshot_path)
           | Raises x \<Rightarrow> Raises x)
      | TestFails e \<Rightarrow>
          (case capture_screenshot screenshot_dir w tid (ascii ''error'') of
             Returns screenshot_path \<Rightarrow> Returns (False, Some e, screenshot_path)
           | Raises x \<Rightarrow> Raises x)
      | ExecEscapes x \<Rightarrow> Raises x)"

text \<open>
  The result dictionary of \<open>run_single_test\<close>; the fields are its keys, prefixed
  because \<open>test_id\<close>, \<open>status\<close> and \<open>error_message\<close> are keys of the reader's
  dictionary as well.
\<close>

record run_result =
  res_test_id :: ustr
  res_status :: ustr
  res_error_message :: "ustr option"
  res_screenshot_path :: "ustr option"
  res_execution_time :: rat

text \<open>An f-string field holding an \<open>Optional[str]\<close>.\<close>

definition fmt :: "ustr option \<Rightarrow> ustr" where
  "fmt e = (case e of None \<Rightarrow> ascii ''None'' | Some s \<Rightarrow> s)"

text \<open>
  \<open>PlaywrightRunner.run_single_test\<close>. \<open>try_body\<close> is the body of the \<open>try\<close>: it
  gives the dictionary as it stands when the body ends, whether by \<open>return result\<close>
  or by running to its end, or the exception it raises. \<open>run_single_test\<close> adds the
  \<open>except Exception\<close> and \<open>finally\<close> clauses; an exception outside \<open>Exception\<close> is
  not caught and no dictionary is returned.
\<close>

definition try_body ::
  "(ustr \<Rightarrow> ustr) \<Rightarrow> ustr \<Rightarrow> world \<Rightarrow> runner \<Rightarrow> run_result \<Rightarrow> ustr \<Rightarrow> ustr \<Rightarrow> run_result outcome \<times> runner" where
  "try_body lower screenshot_dir w r result tid code_file =
     (let execute = (\<lambda>r'.
            (case execute_test_code lower screenshot_dir w tid code_file of
               Raises x \<Rightarrow> (Raises x, r')
             | Returns (success, error, screenshot_path) \<Rightarrow>
                 if success then (Returns (result\<lparr>res_status := ascii ''PASS''\<rparr>), r')
                 else (Returns (result\<lparr>res_status := ascii ''FAIL'', res_error_message := error,
                                         res_screenshot_path := screenshot_path\<rparr>), r')))
      in if \<not> browser r then
           (case start_browser w r of
              (Raises x, r1) \<Rightarrow> (Raises x, r1)
            | (Returns (success, error), r1) \<Rightarrow>
                if \<not> success
                then (Returns (result\<lparr>res_status := ascii ''FAIL'',
                        res_error_message := Some (ascii ''Browser start failed: '' @ fmt error)\<rparr>), r1)
                else (case login screenshot_dir w of
                        Raises x \<Rightarrow> (Raises x, r1)
                      | Returns (success, error) \<Rightarrow>
                          if \<not> success
                          then (case capture_screenshot screenshot_dir w tid (ascii ''login_failed'') of
                                  Raises x \<Rightarrow> (Raises x, r1)
                                | Returns screenshot_path \<Rightarrow>
                                    (Returns (result\<lparr>res_status := ascii ''FAIL'',
                                       res_error_message := Some (ascii ''Login failed: '' @ fmt error),
                                       res_screenshot_path := screenshot_path\<rparr>), r1))
                          else execute r1))
         else execute r)"

definition run_single_test ::
  "(ustr \<Rightarrow> ustr) \<Rightarrow> ustr \<Rightarrow> world \<Rightarrow> runner \<Rightarrow> ustr \<Rightarrow> ustr \<Rightarrow> run_result outcome \<times> runner" where
  "run_single_test lower screenshot_dir w r tid code_file =
     (let result = \<lparr>res_test_id = tid, res_status = ascii ''PENDING'', res_error_message = None,
                     res_screenshot_path = None, res_execution_time = 0\<rparr>
      in (case try_body lower screenshot_dir w r result tid code_file of
            (Returns res, r') \<Rightarrow> (Returns (res\<lparr>res_execution_time := elapsed w\<rparr>), r')
          | (Raises (Exception e), r') \<Rightarrow>
              (Returns (result\<lparr>res_status := ascii ''FAIL'',
                 res_error_message := Some (ascii ''Unexpected error: '' @ e),
                 res_execution_time := elapsed w\<rparr>), r')
          | (Raises BaseException, r') \<Rightarrow> (Raises BaseException, r')))"

section \<open>Floating-point arithmetic\<close>

text \<open>
  A Python \<open>float\<close> is an IEEE 754 binary64 number. A finite one is a rational number,
  and every operation gives the exact result rounded to the nearest representable
  number, ties to even. \<open>bit_length\<close> is \<open>int.bit_length\<close>; \<open>ilog2 x\<close> is the exponent
  of the power of two at or below \<open>x > 0\<close>; \<open>rne\<close> rounds to the nearest integer, ties
  to even; \<open>fl\<close> rounds to 53 significant bits, the exponent not below that of the
  subnormal numbers. A result of magnitude \<open>2 ^ 1024\<close> or more is not finite.
\<close>

fun bit_length :: "nat \<Rightarrow> nat" where
  "bit_length n = (if n = 0 then 0 else Suc (bit_length (n div 2)))"

declare bit_length.simps [simp del]

definition ilog2 :: "rat \<Rightarrow> int" where
  "ilog2 x =
     (if 1 \<le> x then int (bit_length (nat \<lfloor>x\<rfloor>)) - 1
      else - int (bit_length (nat (\<lceil>1 / x\<rceil> - 1))))"

definition pow2 :: "int \<Rightarrow> rat" where
  "pow2 e = (if 0 \<le> e then 2 ^ nat e else 1 / 2 ^ nat (- e))"

definition rne :: "rat \<Rightarrow> int" where
  "rne x =
     (let n = \<lfloor>x\<rfloor>; d = x - of_int n
      in if d < 1 / 2 then n else if 1 / 2 < d then n + 1 else if even n then n else n + 1)"

definition fl :: "rat \<Rightarrow> rat" where
  "fl x =
     (if x = 0 then 0
      else let e = max (ilog2 \<bar>x\<bar> - 52) (- 1074) in of_int (rne (x / pow2 e)) * pow2 e)"

definition finite_float :: "rat \<Rightarrow> bool" where
  "finite_float x \<longleftrightarrow> \<bar>x\<bar> < 2 ^ 1024"

text \<open>
  \<open>float(n)\<close> for an \<open>int\<close>, as the mixed operations \<open>n * 1.5\<close> and \<open>1 + x\<close> convert
  their integer operand: \<open>None\<close> is \<open>OverflowError\<close>.
\<close>

definition float_of_int :: "int \<Rightarrow> rat option" where
  "float_of_int n = (let x = fl (of_int n) in if finite_float x then Some x else None)"

text \<open>
  \<open>a / b\<close> for two \<open>int\<close>s: the correctly rounded quotient; \<open>None\<close> is
  \<open>ZeroDivisionError\<close> or \<open>OverflowError\<close>.
\<close>

definition true_div :: "int \<Rightarrow> int \<Rightarrow> rat option" where
  "true_div a b =
     (if b = 0 then None
      else let q = fl (of_int a / of_int b) in if finite_float q then Some q else None)"

text \<open>
  \<open>int(x)\<close> for a \<open>float\<close>: truncation towards zero. \<open>int_of_float\<close> takes the
  rounded product or sum as it comes out of \<open>fl\<close>: one that is not finite is the
  float \<open>inf\<close>, on which \<open>int\<close> raises \<open>OverflowError\<close> (\<open>None\<close>).
\<close>

definition trunc :: "rat \<Rightarrow> int" where
  "trunc x = (if 0 \<le> x then \<lfloor>x\<rfloor> else \<lceil>x\<rceil>)"

definition int_of_float :: "rat \<Rightarrow> int option" where
  "int_of_float x = (if finite_float x then Some (trunc x) else None)"

text \<open>
  \<open>round(x, 1)\<close>: the decimal with one place nearest to the exact value of \<open>x\<close>, ties
  to even, converted back to the nearest \<open>float\<close>.
\<close>

definition round1 :: "rat \<Rightarrow> rat" where
  "round1 x = fl (of_int (rne (x * 10)) / 10)"

section \<open>The generation service (\<open>chatgpt_service.py\<close>)\<close>

subsection \<open>What the interpreter and the model service provide\<close>

text \<open>
  The values \<open>json.loads\<close> builds. An object is its list of key/value pairs, the keys
  distinct. A \<open>float\<close> is finite, infinite or not a number.
\<close>

datatype pyfloat = Finite rat | PosInf | NegInf | NaN

datatype json =
    JNull | JBool bool | JInt int | JFloat pyfloat | JStr ustr
  | JArr "json list" | JObj "(ustr \<times> json) list"

type_synonym dict = "(ustr \<times> json) list"

text \<open>
  \<open>json.loads(text)\<close> gives a value, raises \<open>JSONDecodeError\<close>, or raises another
  exception (\<open>RecursionError\<close>); the texts are \<open>str(e)\<close>.
\<close>

datatype loaded = Loaded json | DecodeError ustr | LoadRaises ustr

text \<open>
  The library functions that are taken as they are: \<open>str.capitalize\<close>, \<open>str\<close> on a
  JSON value that is not a string, \<open>json.loads\<close>, \<open>re.findall(r'\d+', s)\<close>, and \<open>int\<close>
  on a string (\<open>None\<close> is \<open>ValueError\<close>).
\<close>

record builtins =
  capitalize :: "ustr \<Rightarrow> ustr"
  str_of :: "json \<Rightarrow> ustr"
  json_loads :: "ustr \<Rightarrow> loaded"
  findall_digits :: "ustr \<Rightarrow> ustr list"
  int_of_str :: "ustr \<Rightarrow> int option"

text \<open>
  A request to the model service. A generation prompt is one of the three templates
  filled with the requirement text and the number of test cases asked for; the
  estimation prompt is filled with the sample of the text and the number generated so
  far. The fixed wording of the templates is not part of the model. The second
  component of a request is \<open>max_tokens\<close>.
\<close>

datatype template = HappyPath | Validation | EdgeCases

datatype prompt = Generate template ustr int | Estimate ustr int

type_synonym request = "prompt \<times> nat"

text \<open>
  The service answers with the message content (an \<open>Optional[str]\<close>), or the \<open>try\<close>
  block around the call raises, with text \<open>str(e)\<close>. Its answer may depend on the
  requests made before, which are kept as a log.
\<close>

datatype reply = Completion "ustr option" | ApiRaises ustr

type_synonym service = "request list \<Rightarrow> request \<Rightarrow> reply"

text \<open>
  The error messages. \<open>ApiError e\<close> is \<open>"ChatGPT API error: {e}"\<close>, \<open>NoJsonArray\<close> is
  \<open>"No JSON array found in response"\<close>, \<open>NotJsonArray\<close> is \<open>"Response is not a JSON
  array"\<close>, \<open>NoValidTestCases\<close> is \<open>"No valid test cases found after parsing"\<close>,
  \<open>JsonParseFailed e\<close> is \<open>"Failed to parse JSON: {e}"\<close>, \<open>ParsingError f\<close> is
  \<open>"Parsing error: {e}"\<close> for the exception \<open>f\<close>, and the last four are
  \<open>"Batch 2 failed but Batch 1 succeeded"\<close>, \<open>"Batch 2 parsing failed but Batch 1
  succeeded"\<close>, \<open>"Batch 3 failed but Batch 1+2 succeeded"\<close> and \<open>"Batch 3 parsing failed
  but Batch 1+2 succeeded"\<close>.
\<close>

datatype fault = AttributeError | TypeError | OtherError ustr

datatype gen_error =
    ApiError ustr | NoJsonArray | NotJsonArray | NoValidTestCases | JsonParseFailed ustr
  | ParsingError fault
  | Batch2Failed | Batch2ParsingFailed | Batch3Failed | Batch3ParsingFailed

subsection \<open>The three prompts and the call\<close>

definition create_prompt_ui_happy_path :: "ustr \<Rightarrow> int \<Rightarrow> prompt" where
  "create_prompt_ui_happy_path brd_content n = Generate HappyPath brd_content n"

definition create_prompt_ui_validation :: "ustr \<Rightarrow> int \<Rightarrow> prompt" where
  "create_prompt_ui_validation brd_content n = Generate Validation brd_content n"

definition create_prompt_ui_edge_cases :: "ustr \<Rightarrow> int \<Rightarrow> prompt" where
  "create_prompt_ui_edge_cases brd_content n = Generate EdgeCases brd_content n"

text \<open>
  \<open>ChatGPTService._call_chatgpt\<close>: \<open>(success, response_text, error)\<close>, and the log
  \<open>sent\<close> with the request added.
\<close>

definition call_chatgpt ::
  "service \<Rightarrow> request list \<Rightarrow> prompt \<Rightarrow> nat \<Rightarrow> (bool \<times> ustr option \<times> gen_error option) \<times> request list" where
  "call_chatgpt svc sent p max_tokens =
     ((case svc sent (p, max_tokens) of
         Completion response_text \<Rightarrow> (True, response_text, None)
       | ApiRaises e \<Rightarrow> (False, Some [], Some (ApiError e))),
      sent @ [(p, max_tokens)])"

subsection \<open>Parsing a response\<close>

definition endswith :: "ustr \<Rightarrow> ustr \<Rightarrow> bool" where
  "endswith s p \<longleftrightarrow> startswith (rev s) (rev p)"

text \<open>\<open>s.find(c)\<close> and \<open>s.rfind(c)\<close> for one character; \<open>None\<close> is \<open>-1\<close>.\<close>

definition find_char :: "nat \<Rightarrow> ustr \<Rightarrow> nat option" where
  "find_char c s = (if c \<in> set s then Some (length (takeWhile (\<lambda>x. x \<noteq> c) s)) else None)"

definition rfind_char :: "nat \<Rightarrow> ustr \<Rightarrow> nat option" where
  "rfind_char c s =
     (if c \<in> set s then Some (length s - 1 - length (takeWhile (\<lambda>x. x \<noteq> c) (rev s))) else None)"

text \<open>
  \<open>'\n'.join(s.split('\n')[1:])\<close>: the text after the first line break, empty when
  there is none.
\<close>

definition drop_first_line :: "ustr \<Rightarrow> ustr" where
  "drop_first_line s = (case dropWhile (\<lambda>x. x \<noteq> 10) s of [] \<Rightarrow> [] | x # r \<Rightarrow> r)"

definition required_fields :: "ustr list" where
  "required_fields =
     [ascii ''description'', ascii ''steps'', ascii ''expected_result'', ascii ''priority'']"

text \<open>\<open>str(v)\<close>: a string is its own text.\<close>

definition py_str :: "builtins \<Rightarrow> json \<Rightarrow> ustr" where
  "py_str b v = (case v of JStr t \<Rightarrow> t | _ \<Rightarrow> str_of b v)"

text \<open>
  \<open>tc[key] = f(tc[key])\<close> on a dictionary that has the key (where it is used, the key
  has been found present).
\<close>

definition set_field :: "(json \<Rightarrow> ustr) \<Rightarrow> ustr \<Rightarrow> dict \<Rightarrow> dict" where
  "set_field f key tc =
     (case map_of tc key of None \<Rightarrow> tc | Some v \<Rightarrow> AList.update key (JStr (f v)) tc)"

definition normalise :: "builtins \<Rightarrow> dict \<Rightarrow> dict" where
  "normalise b tc =
     set_field (\<lambda>v. capitalize b (strip (py_str b v))) (ascii ''priority'')
       (set_field (\<lambda>v. strip (py_str b v)) (ascii ''expected_result'')
          (set_field (\<lambda>v. strip (py_str b v)) (ascii ''steps'')
             (set_field (\<lambda>v. strip (py_str b v)) (ascii ''description'') tc)))"

text \<open>
  One turn of the loop over the parsed array. \<open>field not in tc\<close> looks for a key in an
  object, for a substring in a string, for an element in an array, and raises
  \<open>TypeError\<close> on the other values; \<open>tc['description']\<close> raises \<open>TypeError\<close> on a
  string or an array. \<open>Inr None\<close> is \<open>continue\<close>, \<open>Inl\<close> is the exception.
\<close>

definition check_item :: "builtins \<Rightarrow> json \<Rightarrow> fault + dict option" where
  "check_item b tc =
     (case tc of
        JObj kv \<Rightarrow>
          if list_all (\<lambda>field. map_of kv field \<noteq> None) required_fields
          then Inr (Some (normalise b kv)) else Inr None
      | JStr t \<Rightarrow>
          if list_all (\<lambda>field. py_in field t) required_fields then Inl TypeError else Inr None
      | JArr xs \<Rightarrow>
          if list_all (\<lambda>field. JStr field \<in> set xs) required_fields then Inl TypeError
          else Inr None
      | _ \<Rightarrow> Inl TypeError)"

fun validate :: "builtins \<Rightarrow> json list \<Rightarrow> fault + dict list" where
  "validate b [] = Inr []"
| "validate b (tc # tcs) =
     (case check_item b tc of
        Inl f \<Rightarrow> Inl f
      | Inr None \<Rightarrow> validate b tcs
      | Inr (Some d) \<Rightarrow>
          (case validate b tcs of Inl f \<Rightarrow> Inl f | Inr ds \<Rightarrow> Inr (d # ds)))"

text \<open>
  The first part of \<open>_parse_test_cases\<close>: the response without the markdown fence
  around it. Code point 96 is the backtick; \<open>rsplit('```', 1)[0]\<close> of a text that ends
  with the fence is the text without its last three characters.
\<close>

definition clean_response :: "ustr \<Rightarrow> ustr" where
  "clean_response text =
     (let cleaned0 = strip text;
          cleaned1 = (if startswith cleaned0 [96, 96, 96] then drop_first_line cleaned0
                      else cleaned0);
          cleaned2 = (if endswith cleaned1 [96, 96, 96]
                      then take (length cleaned1 - 3) cleaned1 else cleaned1)
      in strip cleaned2)"

text \<open>
  \<open>ChatGPTService._parse_test_cases\<close>: \<open>(success, test_cases, error)\<close>. A response
  that is \<open>None\<close> raises \<open>AttributeError\<close> at \<open>strip\<close>. Code points 91 and 93 are
  the two square brackets. The second slice uses the index found before the first
  slice, as the source does.
\<close>

definition parse_test_cases :: "builtins \<Rightarrow> ustr option \<Rightarrow> bool \<times> dict list \<times> gen_error option" where
  "parse_test_cases b response_text =
     (case response_text of
        None \<Rightarrow> (False, [], Some (ParsingError AttributeError))
      | Some text \<Rightarrow>
          let cleaned_text = clean_response text
          in (case (find_char 91 cleaned_text, rfind_char 93 cleaned_text) of
                (Some first_bracket, Some last_bracket) \<Rightarrow>
                  (case json_loads b (take (last_bracket + 1) (drop first_bracket cleaned_text)) of
                     DecodeError e \<Rightarrow> (False, [], Some (JsonParseFailed e))
                   | LoadRaises e \<Rightarrow> (False, [], Some (ParsingError (OtherError e)))
                   | Loaded (JArr test_cases) \<Rightarrow>
                       (case validate b test_cases of
                          Inl f \<Rightarrow> (False, [], Some (ParsingError f))
                        | Inr valid_test_cases \<Rightarrow>
                            if valid_test_cases = [] then (False, [], Some NoValidTestCases)
                            else (True, valid_test_cases, None))
                   | Loaded _ \<Rightarrow> (False, [], Some NotJsonArray))
              | _ \<Rightarrow> (False, [], Some NoJsonArray)))"

subsection \<open>Generation in batches\<close>

text \<open>
  The batch statistics: one entry \<open>{'name', 'count', 'percentage'}\<close> under each of the
  three keys. A percentage is the value of the \<open>float\<close>.
\<close>

record batch_stat =
  name :: ustr
  count :: nat
  percentage :: rat

record breakdown =
  batch1_happy_path :: batch_stat
  batch2_validation :: batch_stat
  batch3_edge_cases :: batch_stat

text \<open>\<open>round((a / total) * 100, 1) if total > 0 else 0\<close>.\<close>

definition percent :: "nat \<Rightarrow> nat \<Rightarrow> rat" where
  "percent a tot =
     (if tot > 0 then round1 (fl (fl (of_nat a / of_nat tot) * 100)) else 0)"

text \<open>
  \<open>ChatGPTService.generate_test_cases\<close>: \<open>(success, test_cases, error_message,
  batch_breakdown)\<close>, and the log of the requests made. Every \<open>return\<close> of the source
  is one result below, in the source's order.
\<close>

definition generate_test_cases ::
  "builtins \<Rightarrow> service \<Rightarrow> request list \<Rightarrow> ustr \<Rightarrow> int \<Rightarrow> bool \<Rightarrow>
     (bool \<times> dict list \<times> gen_error option \<times> breakdown option) \<times> request list" where
  "generate_test_cases b svc sent brd_content target_count batch_mode =
     (if batch_mode \<and> target_count \<ge> 70 then
        let batch1_count = 30; batch2_count = 30; batch3_count = target_count - 60;
            prompt1 = create_prompt_ui_happy_path brd_content batch1_count;
            ((success1, response1, error1), sent1) = call_chatgpt svc sent prompt1 12000
        in if \<not> success1 then ((False, [], error1, None), sent1)
           else
             let (success_parse1, happy_cases, parse_error1) = parse_test_cases b response1
             in if \<not> success_parse1 then ((False, [], parse_error1, None), sent1)
                else
                  let batch1_actual = length happy_cases;
                      prompt2 = create_prompt_ui_validation brd_content batch2_count;
                      ((success2, response2, error2), sent2) = call_chatgpt svc sent1 prompt2 12000
                  in if \<not> success2
                     then ((True, happy_cases, Some Batch2Failed,
                            Some \<lparr>batch1_happy_path =
                                    \<lparr>name = ascii ''UI Happy Path (MainFlow)'', count = batch1_actual,
                                     percentage = 100\<rparr>,
                                  batch2_validation =
                                    \<lparr>name = ascii ''UI Validation'', count = 0, percentage = 0\<rparr>,
                                  batch3_edge_cases =
                                    \<lparr>name = ascii ''UI Boundary (Edge Cases)'', count = 0,
                                     percentage = 0\<rparr>\<rparr>), sent2)
                     else
                       let (success_parse2, validation_cases, parse_error2) =
                             parse_test_cases b response2
                       in if \<not> success_parse2
                          then ((True, happy_cases, Some Batch2ParsingFailed,
                                 Some \<lparr>batch1_happy_path =
                                         \<lparr>name = ascii ''UI Happy Path (MainFlow)'',
                                          count = batch1_actual, percentage = 100\<rparr>,
                                       batch2_validation =
                                         \<lparr>name = ascii ''UI Validation'', count = 0, percentage = 0\<rparr>,
                                       batch3_edge_cases =
                                         \<lparr>name = ascii ''UI Boundary (Edge Cases)'', count = 0,
                                          percentage = 0\<rparr>\<rparr>), sent2)
                          else
                            let batch2_actual = length validation_cases;
                                prompt3 = create_prompt_ui_edge_cases brd_content batch3_count;
                                ((success3, response3, error3), sent3) =
                                  call_chatgpt svc sent2 prompt3 12000;
                                total = batch1_actual + batch2_actual
                            in if \<not> success3
                               then ((True, happy_cases @ validation_cases, Some Batch3Failed,
                                      Some \<lparr>batch1_happy_path =
                                              \<lparr>name = ascii ''UI Happy Path (MainFlow)'',
                                               count = batch1_actual,
                                               percentage = percent batch1_actual total\<rparr>,
                                            batch2_validation =
                                              \<lparr>name = ascii ''UI Validation'', count = batch2_actual,
                                               percentage = percent batch2_actual total\<rparr>,
                                            batch3_edge_cases =
                                              \<lparr>name = ascii ''UI Boundary (Edge Cases)'', count = 0,
                                               percentage = 0\<rparr>\<rparr>), sent3)
                               else
                                 let (success_parse3, edge_cases, parse_error3) =
                                       parse_test_cases b response3
                                 in if \<not> success_parse3
                                    then ((True, happy_cases @ validation_cases,
                                           Some Batch3ParsingFailed,
                                           Some \<lparr>batch1_happy_path =
                                                   \<lparr>name = ascii ''UI Happy Path (MainFlow)'',
                                                    count = batch1_actual,
                                                    percentage = percent batch1_actual total\<rparr>,
                                                 batch2_validation =
                                                   \<lparr>name = ascii ''UI Validation'',
                                                    count = batch2_actual,
                                                    percentage = percent batch2_actual total\<rparr>,
                                                 batch3_edge_cases =
                                                   \<lparr>name = ascii ''UI Boundary (Edge Cases)'',
                                                    count = 0, percentage = 0\<rparr>\<rparr>), sent3)
                                    else
                                      let batch3_actual = length edge_cases;
                                          total_generated =
                                            batch1_actual + batch2_actual + batch3_actual
                                      in ((True, happy_cases @ validation_cases @ edge_cases, None,
                                           Some \<lparr>batch1_happy_path =
                                                   \<lparr>name = ascii ''UI Happy Path (MainFlow)'',
                                                    count = batch1_actual,
                                                    percentage =
                                                      percent batch1_actual total_generated\<rparr>,
                                                 batch2_validation =
                                                   \<lparr>name = ascii ''UI Validation'',
                                                    count = batch2_actual,
                                                    percentage =
                                                      percent batch2_actual total_generated\<rparr>,
                                                 batch3_edge_cases =
                                                   \<lparr>name = ascii ''UI Boundary (Edge Cases)'',
                                                    count = batch3_actual,
                                                    percentage =
                                                      percent batch3_actual total_generated\<rparr>\<rparr>),
                                          sent3)
      else
        let p = create_prompt_ui_happy_path brd_content target_count;
            ((success, response, error), sent1) = call_chatgpt svc sent p 12000
        in if \<not> success then ((False, [], error, None), sent1)
           else
             let (success_parse, test_cases, parse_error) = parse_test_cases b response
             in if \<not> success_parse then ((False, [], parse_error, None), sent1)
                else ((True, test_cases, None,
                       Some \<lparr>batch1_happy_path =
                               \<lparr>name = ascii ''All Test Cases (Single Batch)'',
                                count = length test_cases, percentage = 100\<rparr>,
                             batch2_validation = \<lparr>name = ascii ''N/A'', count = 0, percentage = 0\<rparr>,
                             batch3_edge_cases = \<lparr>name = ascii ''N/A'', count = 0, percentage = 0\<rparr>\<rparr>),
                      sent1))"

subsection \<open>Estimation\<close>

text \<open>
  \<open>s.count(sub)\<close>: the number of occurrences of \<open>sub\<close>, found from the left and not
  overlapping; with an empty \<open>sub\<close>, one more than the length.
\<close>

function py_count :: "ustr \<Rightarrow> ustr \<Rightarrow> nat" where
  "py_count [] sub = (if sub = [] then 1 else 0)"
| "py_count (c # s) sub =
     (if sub = [] then Suc (py_count s sub)
      else if prefix sub (c # s) then Suc (py_count (drop (length sub) (c # s)) sub)
      else py_count s sub)"
  by pat_completeness auto
termination
  by (relation "measure (\<lambda>(s, sub). length s)") auto

definition ui_keywords :: "ustr list" where
  "ui_keywords =
     [ascii ''button'', ascii ''field'', ascii ''form'', ascii ''input'', ascii ''dropdown'',
      ascii ''checkbox'', ascii ''radio'', ascii ''select'', ascii ''menu'', ascii ''tab'',
      ascii ''modal'', ascii ''dialog'',
      [110, 250, 116],                              \<comment> \<open>Vietnamese, without its diacritics: nut\<close>
      [116, 114, 432, 7901, 110, 103],              \<comment> \<open>truong\<close>
      [98, 105, 7875, 117, 32, 109, 7851, 117],     \<comment> \<open>bieu mau\<close>
      [110, 104, 7853, 112],                        \<comment> \<open>nhap\<close>
      [99, 104, 7885, 110]]                         \<comment> \<open>chon\<close>"

text \<open>
  \<open>ChatGPTService._estimate_by_heuristic\<close>; \<open>None\<close> is the \<open>OverflowError\<close> of a
  number too large for a \<open>float\<close>. \<open>lower\<close> is \<open>str.lower\<close>. The operands of
  \<open>base_estimate * (1 + ui_factor * 0.5)\<close> are at most 100, 2 and 0.5, so the three
  roundings stay finite.
\<close>

definition estimate_by_heuristic :: "(ustr \<Rightarrow> ustr) \<Rightarrow> ustr \<Rightarrow> int \<Rightarrow> int option" where
  "estimate_by_heuristic lower brd_content generated_count =
     (let brd_length = length brd_content;
          ui_element_count = (\<Sum>keyword \<leftarrow> ui_keywords. py_count (lower brd_content) keyword);
          base_estimate = (if brd_length < 5000 then 30 else if brd_length < 15000 then 60 else 100)
      in (case true_div (int ui_element_count) 20 of
            None \<Rightarrow> None
          | Some q \<Rightarrow>
              let ui_factor = min q 2;
                  estimate = trunc (fl (of_int base_estimate * fl (1 + fl (ui_factor * (1 / 2)))))
              in (case float_of_int generated_count of
                    None \<Rightarrow> None
                  | Some g \<Rightarrow>
                      (case int_of_float (fl (g * (3 / 2))) of
                         None \<Rightarrow> None
                       | Some min_estimate \<Rightarrow> Some (max estimate min_estimate)))))"

text \<open>
  \<open>ChatGPTService.estimate_required_test_cases\<close>. The request carries the first 6000
  characters of the text; any exception in the \<open>try\<close> block leads to the heuristic.
\<close>

definition estimate_required_test_cases ::
  "builtins \<Rightarrow> (ustr \<Rightarrow> ustr) \<Rightarrow> service \<Rightarrow> request list \<Rightarrow> ustr \<Rightarrow> int \<Rightarrow> int option \<times> request list" where
  "estimate_required_test_cases b lower svc sent brd_content generated_count =
     (let content_sample = (if length brd_content > 6000 then take 6000 brd_content else brd_content);
          req = (Estimate content_sample generated_count, 50)
      in ((case svc sent req of
             ApiRaises e \<Rightarrow> estimate_by_heuristic lower brd_content generated_count
           | Completion None \<Rightarrow> estimate_by_heuristic lower brd_content generated_count
           | Completion (Some content) \<Rightarrow>
               (case findall_digits b (strip content) of
                  [] \<Rightarrow> estimate_by_heuristic lower brd_content generated_count
                | n # numbers \<Rightarrow>
                    (case int_of_str b n of
                       None \<Rightarrow> estimate_by_heuristic lower brd_content generated_count
                     | Some estimated \<Rightarrow> Some (max estimated generated_count)))),
          sent @ [req]))"

section \<open>Values for the examples\<close>

text \<open>
  \<open>str.lower\<close> on ASCII text: the letters \<open>A\<close> to \<open>Z\<close> become \<open>a\<close> to \<open>z\<close>. The
  examples below take it for the parameter \<open>lower\<close>.
\<close>

definition lower_ascii :: "ustr \<Rightarrow> ustr" where
  "lower_ascii s = map (\<lambda>c. if 65 \<le> c \<and> c \<le> 90 then c + 32 else c) s"

text \<open>
  A response of the model service with one test case, as JSON text (code point 34 is the
  double quote), the record it stands for, library functions that know this one document
  and leave \<open>High\<close> as it is, and a service that answers the first request with the
  document and fails on every later one.
\<close>

definition quoted :: "string \<Rightarrow> ustr" where
  "quoted s = [34] @ ascii s @ [34]"

definition example_reply :: ustr where
  "example_reply =
     ascii ''[{'' @ quoted ''description'' @ ascii '':'' @ quoted ''Open page'' @ ascii '','' @
     quoted ''steps'' @ ascii '':'' @ quoted ''1. Go'' @ ascii '','' @
     quoted ''expected_result'' @ ascii '':'' @ quoted ''Shown'' @ ascii '','' @
     quoted ''priority'' @ ascii '':'' @ quoted ''High'' @ ascii ''}]''"

definition example_record :: dict where
  "example_record =
     [(ascii ''description'', JStr (ascii ''Open page'')), (ascii ''steps'', JStr (ascii ''1. Go'')),
      (ascii ''expected_result'', JStr (ascii ''Shown'')), (ascii ''priority'', JStr (ascii ''High''))]"

definition example_builtins :: builtins where
  "example_builtins =
     \<lparr>capitalize = (\<lambda>s. s), str_of = (\<lambda>v. []),
      json_loads = (\<lambda>s. if s = example_reply then Loaded (JArr [JObj example_record])
                         else DecodeError (ascii ''Expecting value'')),
      findall_digits = (\<lambda>s. []), int_of_str = (\<lambda>s. None)\<rparr>"

definition example_service :: service where
  "example_service sent req =
     (if sent = [] then Completion (Some example_reply)
      else ApiRaises (ascii ''Request timed out.''))"

text \<open>
  A URL mapping with the two paths named in the documentation of \<open>URLManager.get\<close>.
\<close>

definition example_urls :: url_manager where
  "example_urls =
     \<lparr>urls = [(ascii ''contract'',
                [(ascii ''list'', ascii ''/account/contract''),
                 (ascii ''edit'', ascii ''/account/contract/edit/{id}'')])],
      base_url = ascii ''https://agency-uat.affina.com.vn''\<rparr>"

section \<open>Properties of the sheet reader\<close>

lemma strip_Nil [simp]: "strip [] = []"
  by (simp add: strip_def)

lemma read_row_eq:
  "read_row i row = (if included row then Some (expected_case (i + 1) row) else None)"
  by (cases row) (auto simp: read_row_def included_def expected_case_def cell_def Let_def)

lemma read_rows_enumerate:
  "read_rows k rows =
     [expected_case (i + 1) row. (i, row) \<leftarrow> List.enumerate k rows, included row]"
  by (induction rows arbitrary: k) (simp_all add: read_row_eq)

lemma read_rows_mem:
  "tc \<in> set (read_rows k rows) \<longleftrightarrow> (\<exists>j < length rows. read_row (k + j) (rows ! j) = Some tc)"
proof (induction rows arbitrary: k)
  case Nil
  then show ?case by simp
next
  case (Cons row rows)
  have "(\<exists>j < length (row # rows). read_row (k + j) ((row # rows) ! j) = Some tc) \<longleftrightarrow>
        read_row k row = Some tc \<or> (\<exists>j < length rows. read_row (Suc k + j) (rows ! j) = Some tc)"
    by (auto simp: less_Suc_eq_0_disj)
  with Cons.IH [of "Suc k"] show ?case
    by (auto split: option.splits)
qed

text \<open>
  Claim C4, as the code has it. The worksheet of the end-to-end scenario (any title row
  and second row, the five headers in row 3, one data row in row 4) gives exactly one
  test case, with id \<open>TC001\<close>, priority \<open>High\<close> and row number 4. In general, for a
  worksheet of at least four rows, the reader succeeds and returns, in order, one test
  case for every row from row 4 on whose first cell, after white space is stripped from
  both ends, is not empty and starts with \<open>TC\<close>, and none for the other rows; the test
  case holds the stripped cells, the empty string for a missing cell, and \<open>Medium\<close> as
  priority when the row has fewer than five cells.
\<close>

theorem read_test_cases_rows:
  "read_test_cases
     (Connected (\<lambda>n. if n = sheet then Some (Values
        [title, blank,
         [ascii ''Test ID'', ascii ''Description'', ascii ''Steps'', ascii ''Expected Result'',
          ascii ''Priority''],
         [ascii ''TC001'', ascii ''desc'', ascii ''steps'', ascii ''expected'', ascii ''High'']])
        else None)) sheet =
   (True,
    [\<lparr>test_id = ascii ''TC001'', description = ascii ''desc'', steps = ascii ''steps'',
      expected_result = ascii ''expected'', priority = ascii ''High'', row_number = 4,
      status = [], error_message = [], screenshot_url = []\<rparr>], None)
   \<and> (spreadsheet ws = Some (Values all_values) \<and> 4 \<le> length all_values \<longrightarrow>
        read_test_cases (Connected spreadsheet) ws =
          (True,
           [expected_case (i + 1) row.
              (i, row) \<leftarrow> List.enumerate 3 (drop 3 all_values), included row],
           None))"
proof
  show "read_test_cases
     (Connected (\<lambda>n. if n = sheet then Some (Values
        [title, blank,
         [ascii ''Test ID'', ascii ''Description'', ascii ''Steps'', ascii ''Expected Result'',
          ascii ''Priority''],
         [ascii ''TC001'', ascii ''desc'', ascii ''steps'', ascii ''expected'', ascii ''High'']])
        else None)) sheet =
   (True,
    [\<lparr>test_id = ascii ''TC001'', description = ascii ''desc'', steps = ascii ''steps'',
      expected_result = ascii ''expected'', priority = ascii ''High'', row_number = 4,
      status = [], error_message = [], screenshot_url = []\<rparr>], None)"
    by (simp add: read_test_cases_def read_row_def ascii_def strip_def isspace_def startswith_def)
next
  show "spreadsheet ws = Some (Values all_values) \<and> 4 \<le> length all_values \<longrightarrow>
        read_test_cases (Connected spreadsheet) ws =
          (True,
           [expected_case (i + 1) row.
              (i, row) \<leftarrow> List.enumerate 3 (drop 3 all_values), included row],
           None)"
    by (simp add: read_test_cases_def read_rows_enumerate)
qed

theorem read_test_cases_rows_witness:
  "read_test_cases
     (Connected [ascii ''Sheet1'' \<mapsto> Values
        [[ascii ''brd.pdf''], [],
         [ascii ''Test ID'', ascii ''Description'', ascii ''Steps'', ascii ''Expected Result'',
          ascii ''Priority''],
         [ascii ''TC001'', ascii ''open page''],
         [ascii ''Note'', ascii ''not a test case''],
         [ascii '' '', ascii ''blank id''],
         [ascii '' TC002 '', ascii ''d'', ascii ''s'', ascii ''e'', ascii '' '']]])
     (ascii ''Sheet1'') =
   (True,
    [\<lparr>test_id = ascii ''TC001'', description = ascii ''open page'', steps = [],
      expected_result = [], priority = ascii ''Medium'', row_number = 4,
      status = [], error_message = [], screenshot_url = []\<rparr>,
     \<lparr>test_id = ascii ''TC002'', description = ascii ''d'', steps = ascii ''s'',
      expected_result = ascii ''e'', priority = [], row_number = 7,
      status = [], error_message = [], screenshot_url = []\<rparr>], None)"
proof -
  let ?vals = "[[ascii ''brd.pdf''], [],
         [ascii ''Test ID'', ascii ''Description'', ascii ''Steps'', ascii ''Expected Result'',
          ascii ''Priority''],
         [ascii ''TC001'', ascii ''open page''],
         [ascii ''Note'', ascii ''not a test case''],
         [ascii '' '', ascii ''blank id''],
         [ascii '' TC002 '', ascii ''d'', ascii ''s'', ascii ''e'', ascii '' '']]"
  have "[ascii ''Sheet1'' \<mapsto> Values ?vals] (ascii ''Sheet1'') = Some (Values ?vals)
          \<and> 4 \<le> length ?vals"
    by simp
  with read_test_cases_rows
         [of _ _ _ "[ascii ''Sheet1'' \<mapsto> Values ?vals]" "ascii ''Sheet1''" ?vals]
  show ?thesis
    by (simp add: enumerate_eq_zip included_def expected_case_def cell_def ascii_def strip_def
          isspace_def startswith_def upt_rec)
qed

text \<open>
  Claim C4 as it is worded fails: a row whose first cell is \<open>" TC001"\<close> does not start
  with \<open>TC\<close>, yet the reader keeps it, with the stripped id.
\<close>

theorem read_test_cases_unstripped_counterexample:
  "\<not> startswith (ascii '' TC001'') (ascii ''TC'') \<and>
   read_test_cases
     (Connected [ascii ''Sheet1'' \<mapsto> Values
        [[ascii ''brd.pdf''], [],
         [ascii ''Test ID'', ascii ''Description'', ascii ''Steps'', ascii ''Expected Result'',
          ascii ''Priority''],
         [ascii '' TC001'', ascii ''desc'', ascii ''steps'', ascii ''expected'', ascii ''High'']]])
     (ascii ''Sheet1'') =
   (True,
    [\<lparr>test_id = ascii ''TC001'', description = ascii ''desc'', steps = ascii ''steps'',
      expected_result = ascii ''expected'', priority = ascii ''High'', row_number = 4,
      status = [], error_message = [], screenshot_url = []\<rparr>], None)"
  by (simp add: read_test_cases_def read_row_def ascii_def strip_def isspace_def startswith_def)

text \<open>
  Claim C10. On a worksheet that the service delivers, for every kept row from row 4
  on, the reader succeeds and its result has a test case with the number of that row;
  the priority of such a test case is \<open>Medium\<close> only by default, when the row has fewer
  than five cells, and the stripped fifth cell otherwise. So a fifth cell that is present
  but empty or white space gives the empty priority, not \<open>Medium\<close>.
\<close>

theorem read_test_cases_priority:
  assumes "spreadsheet ws = Some (Values all_values)"
    and "3 \<le> i" and "i < length all_values" and "included (all_values ! i)"
  shows "\<exists>tcs. read_test_cases (Connected spreadsheet) ws = (True, tcs, None) \<and>
           (\<exists>tc \<in> set tcs. row_number tc = i + 1) \<and>
           (\<forall>tc \<in> set tcs. row_number tc = i + 1 \<longrightarrow>
              priority tc = (if length (all_values ! i) < 5 then ascii ''Medium''
                             else strip (all_values ! i ! 4)) \<and>
              (5 \<le> length (all_values ! i) \<and> strip (all_values ! i ! 4) = [] \<longrightarrow>
                 priority tc = []))"
proof -
  let ?rows = "drop 3 all_values"
  let ?tcs = "read_rows 3 ?rows"
  let ?tc = "expected_case (i + 1) (all_values ! i)"
  from assms(1-3) have r: "read_test_cases (Connected spreadsheet) ws = (True, ?tcs, None)"
    by (simp add: read_test_cases_def)
  from assms(2-4) have "read_row (3 + (i - 3)) (?rows ! (i - 3)) = Some ?tc"
    by (simp add: read_row_eq)
  moreover from assms(2,3) have "i - 3 < length ?rows" by simp
  ultimately have mem: "?tc \<in> set ?tcs"
    unfolding read_rows_mem by blast
  have rn: "row_number ?tc = i + 1" by (simp add: expected_case_def)
  have pr: "priority ?tc = (if length (all_values ! i) < 5 then ascii ''Medium''
                            else strip (all_values ! i ! 4))"
    by (simp add: expected_case_def cell_def)
  have uniq: "tc = ?tc" if "tc \<in> set ?tcs" and "row_number tc = i + 1" for tc
  proof -
    from that(1) obtain j where j: "j < length ?rows" "read_row (3 + j) (?rows ! j) = Some tc"
      unfolding read_rows_mem by blast
    then have tc: "tc = expected_case (3 + j + 1) (?rows ! j)"
      by (auto simp: read_row_eq split: if_splits)
    with that(2) have "3 + j = i" by (simp add: expected_case_def)
    moreover from j(1) have "?rows ! j = all_values ! (3 + j)" by simp
    ultimately show ?thesis using tc by simp
  qed
  have "\<exists>tc \<in> set ?tcs. row_number tc = i + 1"
    using mem rn by blast
  moreover have "\<forall>tc \<in> set ?tcs. row_number tc = i + 1 \<longrightarrow>
              priority tc = (if length (all_values ! i) < 5 then ascii ''Medium''
                             else strip (all_values ! i ! 4)) \<and>
              (5 \<le> length (all_values ! i) \<and> strip (all_values ! i ! 4) = [] \<longrightarrow>
                 priority tc = [])"
    using uniq pr by auto
  ultimately show ?thesis using r by blast
qed

theorem read_test_cases_priority_witness:
  "\<exists>tcs. read_test_cases
       (Connected [ascii ''Sheet1'' \<mapsto> Values
          [[ascii ''brd.pdf''], [],
           [ascii ''Test ID'', ascii ''Description'', ascii ''Steps'', ascii ''Expected Result'',
            ascii ''Priority''],
           [ascii ''TC001'', ascii ''open page''],
           [ascii ''Note'', ascii ''not a test case''],
           [ascii '' '', ascii ''blank id''],
           [ascii '' TC002 '', ascii ''d'', ascii ''s'', ascii ''e'', ascii '' '']]])
       (ascii ''Sheet1'') = (True, tcs, None) \<and>
     (\<exists>tc \<in> set tcs. row_number tc = 7) \<and>
     (\<forall>tc \<in> set tcs. row_number tc = 7 \<longrightarrow> priority tc = [])"
proof -
  let ?vals = "[[ascii ''brd.pdf''], [],
         [ascii ''Test ID'', ascii ''Description'', ascii ''Steps'', ascii ''Expected Result'',
          ascii ''Priority''],
         [ascii ''TC001'', ascii ''open page''],
         [ascii ''Note'', ascii ''not a test case''],
         [ascii '' '', ascii ''blank id''],
         [ascii '' TC002 '', ascii ''d'', ascii ''s'', ascii ''e'', ascii '' '']]"
  have 1: "[ascii ''Sheet1'' \<mapsto> Values ?vals] (ascii ''Sheet1'') = Some (Values ?vals)"
    by simp
  have 3: "(3::nat) \<le> 6" "6 < length ?vals" by simp_all
  have 4: "included (?vals ! 6)"
    by (simp add: included_def ascii_def strip_def isspace_def startswith_def)
  have 5: "5 \<le> length (?vals ! 6)" "strip (?vals ! 6 ! 4) = []"
    by (simp_all add: ascii_def strip_def isspace_def)
  from read_test_cases_priority
      [where spreadsheet = "[ascii ''Sheet1'' \<mapsto> Values ?vals]" and ws = "ascii ''Sheet1''",
       OF 1 3 4]
  obtain tcs where t: "read_test_cases (Connected [ascii ''Sheet1'' \<mapsto> Values ?vals])
        (ascii ''Sheet1'') = (True, tcs, None)"
      "\<exists>tc \<in> set tcs. row_number tc = 6 + 1"
      "\<forall>tc \<in> set tcs. row_number tc = 6 + 1 \<longrightarrow>
         (5 \<le> length (?vals ! 6) \<and> strip (?vals ! 6 ! 4) = [] \<longrightarrow> priority tc = [])"
    by blast
  from t(3) 5 have "\<forall>tc \<in> set tcs. row_number tc = 7 \<longrightarrow> priority tc = []"
    by simp
  moreover from t(2) have "\<exists>tc \<in> set tcs. row_number tc = 7" by simp
  ultimately show ?thesis using t(1) by blast
qed

section \<open>Properties of the module classification\<close>

lemma py_in_sublist: "py_in word s \<longleftrightarrow> sublist word s"
  by (induction s) (simp_all add: sublist_Cons_right)

lemma detect_module_classify:
  "detect_module lower tc =
     classify (lower (dict_get tc (ascii ''description'') [])) (lower (dict_get tc (ascii ''steps'') []))"
  by (simp add: detect_module_def classify_def keyword_groups_def group_matches_def Let_def
        list_ex_iff py_in_sublist)

lemma find_first:
  "P y \<Longrightarrow> \<forall>x \<in> set xs. \<not> P x \<Longrightarrow> find P (xs @ y # ys) = Some y"
  by (induction xs) auto

lemma classify_first_match:
  assumes "keyword_groups = pre @ g # post" and "group_matches d s g"
    and "\<forall>h \<in> set pre. \<not> group_matches d s h"
  shows "classify d s = fst g"
  unfolding classify_def assms(1) using find_first [OF assms(2,3)] by simp

lemma classify_default:
  assumes "\<forall>g \<in> set keyword_groups. \<not> group_matches d s g"
  shows "classify d s = ascii ''contract''"
proof -
  from assms have "find (group_matches d s) keyword_groups = None"
    by (simp add: find_None_iff)
  then show ?thesis by (simp add: classify_def)
qed

text \<open>
  Claim C5. \<open>_detect_module\<close> is a function of the lower-cased description and steps
  alone: it is the classification over the seven keyword groups in the order contract,
  lead, product, deeplink, report, settings, profile. The first group with a keyword that
  occurs as a substring of either text gives the tag, whatever later groups match, and
  when no group matches the tag is \<open>contract\<close>.
\<close>

theorem detect_module_first_match:
  "detect_module lower tc =
     classify (lower (dict_get tc (ascii ''description'') [])) (lower (dict_get tc (ascii ''steps'') []))
   \<and> map fst keyword_groups =
       [ascii ''contract'', ascii ''lead'', ascii ''product'', ascii ''deeplink'', ascii ''report'',
        ascii ''settings'', ascii ''profile'']
   \<and> (keyword_groups = pre @ g # post \<and> group_matches d s g \<and>
        (\<forall>h \<in> set pre. \<not> group_matches d s h) \<longrightarrow> classify d s = fst g)
   \<and> ((\<forall>g \<in> set keyword_groups. \<not> group_matches d s g) \<longrightarrow> classify d s = ascii ''contract'')"
  using detect_module_classify classify_first_match classify_default
  by (simp add: keyword_groups_def)

theorem detect_module_first_match_witness:
  "detect_module lower_ascii
     [ascii ''description'' \<mapsto> ascii ''Open the Product link'', ascii ''steps'' \<mapsto> ascii ''1. Click'']
     = ascii ''product''
   \<and> detect_module lower_ascii
     [ascii ''description'' \<mapsto> ascii ''Sign in'', ascii ''steps'' \<mapsto> ascii ''1. Type the password'']
     = ascii ''contract''"
proof
  let ?tc = "[ascii ''description'' \<mapsto> ascii ''Open the Product link'',
              ascii ''steps'' \<mapsto> ascii ''1. Click'']"
  let ?d = "lower_ascii (dict_get ?tc (ascii ''description'') [])"
  let ?s = "lower_ascii (dict_get ?tc (ascii ''steps'') [])"
  let ?pre = "[(ascii ''contract'', kw_contract), (ascii ''lead'', kw_lead)]"
  let ?g = "(ascii ''product'', kw_product)"
  let ?post = "[(ascii ''deeplink'', kw_deeplink), (ascii ''report'', kw_report),
                (ascii ''settings'', kw_settings), (ascii ''profile'', kw_profile)]"
  have 1: "keyword_groups = ?pre @ ?g # ?post"
    by (simp add: keyword_groups_def)
  have 2: "group_matches ?d ?s ?g"
    by (simp add: group_matches_def py_in_sublist [symmetric] dict_get_def lower_ascii_def
          ascii_def kw_product_def)
  have 3: "\<forall>h \<in> set ?pre. \<not> group_matches ?d ?s h"
    by (simp add: group_matches_def py_in_sublist [symmetric] dict_get_def lower_ascii_def
          ascii_def kw_contract_def kw_lead_def)
  from detect_module_first_match [of lower_ascii ?tc ?pre ?g ?post ?d ?s] 1 2 3
  show "detect_module lower_ascii ?tc = ascii ''product''"
    by simp
next
  let ?tc = "[ascii ''description'' \<mapsto> ascii ''Sign in'',
              ascii ''steps'' \<mapsto> ascii ''1. Type the password'']"
  let ?d = "lower_ascii (dict_get ?tc (ascii ''description'') [])"
  let ?s = "lower_ascii (dict_get ?tc (ascii ''steps'') [])"
  have "\<forall>g \<in> set keyword_groups. \<not> group_matches ?d ?s g"
    by (simp add: keyword_groups_def group_matches_def py_in_sublist [symmetric] dict_get_def
          lower_ascii_def ascii_def kw_contract_def kw_lead_def kw_product_def kw_deeplink_def
          kw_report_def kw_settings_def kw_profile_def)
  with detect_module_first_match [of lower_ascii ?tc _ _ _ ?d ?s]
  show "detect_module lower_ascii ?tc = ascii ''contract''"
    by simp
qed

section \<open>Properties of the test runner\<close>

lemma try_body_status:
  assumes "try_body lower dir w r result tid code_file = (Returns res, r')"
  shows "res_status res = ascii ''PASS'' \<or> res_status res = ascii ''FAIL''"
  using assms
  by (auto simp: try_body_def Let_def split: if_splits prod.splits outcome.splits)

lemma run_single_test_returned:
  assumes "run_single_test lower dir w r tid code_file = (Returns res, r')"
  shows "res_status res = ascii ''PASS'' \<or> res_status res = ascii ''FAIL''"
proof (cases "try_body lower dir w r
    \<lparr>res_test_id = tid, res_status = ascii ''PENDING'', res_error_message = None,
     res_screenshot_path = None, res_execution_time = 0\<rparr> tid code_file")
  case (Pair out r1)
  show ?thesis
  proof (cases out)
    case (Returns res0)
    with Pair assms have "res = res0\<lparr>res_execution_time := elapsed w\<rparr>"
      by (simp add: run_single_test_def)
    moreover from Pair Returns
    have "res_status res0 = ascii ''PASS'' \<or> res_status res0 = ascii ''FAIL''"
      using try_body_status by blast
    ultimately show ?thesis by simp
  next
    case (Raises x)
    with Pair assms show ?thesis
      by (cases x) (auto simp: run_single_test_def)
  qed
qed

lemma run_single_test_no_exception:
  "fst (run_single_test lower dir w r tid code_file) \<noteq> Raises (Exception e)"
  by (auto simp: run_single_test_def Let_def split: prod.splits outcome.splits exn.splits)

text \<open>
  Claim C7. Every dictionary that \<open>run_single_test\<close> returns has status \<open>PASS\<close> or
  \<open>FAIL\<close>, so never the initial \<open>PENDING\<close>, whatever the browser does: on a failed
  start, a failed login, a test that passes, fails, times out or raises, and on an
  exception caught by \<open>except Exception\<close>. The call itself raises no \<open>Exception\<close>:
  it returns a dictionary unless an exception outside \<open>Exception\<close> passes through.
\<close>

theorem run_single_test_status:
  "(run_single_test lower dir w r tid code_file = (Returns res, r') \<longrightarrow>
      (res_status res = ascii ''PASS'' \<or> res_status res = ascii ''FAIL'') \<and>
      res_status res \<noteq> ascii ''PENDING'')
   \<and> fst (run_single_test lower dir w r tid code_file) \<noteq> Raises (Exception e)"
  using run_single_test_returned [of lower dir w r tid code_file res r']
    run_single_test_no_exception [of lower dir w r tid code_file e]
  by (auto simp: ascii_def)

theorem run_single_test_status_witness:
  "run_single_test lower_ascii (ascii ''screenshots/failures'')
     \<lparr>on_start = Launched, on_login = LoggedIn, on_exec = TestTimesOut,
      on_shot = (\<lambda>reason. Saved (ascii ''20251024_220811'')), elapsed = 125\<rparr>
     \<lparr>playwright = False, browser = False, browser_context = False, page = False\<rparr>
     (ascii ''TC001'') (ascii ''tests/generated/test_tc001.py'')
   = (Returns
        \<lparr>res_test_id = ascii ''TC001'', res_status = ascii ''FAIL'',
         res_error_message = Some (ascii ''Test execution timeout (120s)''),
         res_screenshot_path =
           Some (ascii ''screenshots/failures/TC001_timeout_20251024_220811.png''),
         res_execution_time = 125\<rparr>,
      \<lparr>playwright = True, browser = True, browser_context = True, page = True\<rparr>)
   \<and> ascii ''FAIL'' \<noteq> ascii ''PENDING''"
proof -
  let ?w = "\<lparr>on_start = Launched, on_login = LoggedIn, on_exec = TestTimesOut,
      on_shot = (\<lambda>reason. Saved (ascii ''20251024_220811'')), elapsed = 125\<rparr>"
  let ?r = "\<lparr>playwright = False, browser = False, browser_context = False, page = False\<rparr>"
  let ?res = "\<lparr>res_test_id = ascii ''TC001'', res_status = ascii ''FAIL'',
         res_error_message = Some (ascii ''Test execution timeout (120s)''),
         res_screenshot_path =
           Some (ascii ''screenshots/failures/TC001_timeout_20251024_220811.png''),
         res_execution_time = 125\<rparr>"
  have run: "run_single_test lower_ascii (ascii ''screenshots/failures'') ?w ?r
      (ascii ''TC001'') (ascii ''tests/generated/test_tc001.py'')
    = (Returns ?res, \<lparr>playwright = True, browser = True, browser_context = True, page = True\<rparr>)"
    by (simp add: run_single_test_def try_body_def start_browser_def assigned_def login_def
          execute_test_code_def capture_screenshot_def path_join_def ascii_def)
  from run_single_test_status [of lower_ascii "ascii ''screenshots/failures''" ?w ?r
      "ascii ''TC001''" "ascii ''tests/generated/test_tc001.py''" ?res
      "\<lparr>playwright = True, browser = True, browser_context = True, page = True\<rparr>"] run
  show ?thesis by simp
qed

section \<open>Properties of the result reporter\<close>

lemma trim_take: "trim row = take (length (trim row)) row"
proof -
  let ?k = "length (takeWhile (\<lambda>c. c = []) (rev row))"
  have "trim row = rev (drop ?k (rev row))"
    by (simp add: trim_def dropWhile_eq_drop)
  also have "\<dots> = take (length row - ?k) row"
    by (simp add: rev_drop)
  finally have eq: "trim row = take (length row - ?k) row" .
  then have "length (trim row) = length row - ?k" by simp
  with eq show ?thesis by simp
qed

lemma trim_nth: "i < length (trim row) \<Longrightarrow> trim row ! i = row ! i"
  by (subst trim_take) simp

lemma trim_length_le: "length (trim row) \<le> length row"
  by (simp add: trim_def) (metis length_dropWhile_le length_rev)

lemma trim_covers:
  assumes "i < length row" and "row ! i \<noteq> []"
  shows "i < length (trim row)"
proof (rule ccontr)
  let ?P = "\<lambda>c::ustr. c = []"
  let ?k = "length (takeWhile ?P (rev row))"
  assume "\<not> i < length (trim row)"
  moreover have len: "length (trim row) = length row - ?k"
    by (simp add: trim_def dropWhile_eq_drop)
  ultimately have j: "length row - 1 - i < ?k" using assms(1) by linarith
  then have "takeWhile ?P (rev row) ! (length row - 1 - i) = rev row ! (length row - 1 - i)"
    by (rule takeWhile_nth)
  moreover from j have "takeWhile ?P (rev row) ! (length row - 1 - i) \<in> set (takeWhile ?P (rev row))"
    by simp
  then have "?P (takeWhile ?P (rev row) ! (length row - 1 - i))"
    by (rule set_takeWhileD [THEN conjunct2])
  moreover from assms(1) have "rev row ! (length row - 1 - i) = row ! i"
    by (simp add: rev_nth)
  ultimately show False using assms(2) by simp
qed


lemma set_cell_length: "3 \<le> length (set_cell 3 c v g)"
  by (simp add: set_cell_def pad_def Let_def)

lemma pad3_nth: "pad 3 [] g ! 2 = row3 g"
  by (auto simp: pad_def row3_def nth_append)

lemma set_cell_row: "set_cell 3 c v g ! 2 = (pad c [] (row3 g))[c - 1 := v]"
  by (simp add: set_cell_def Let_def pad3_nth) (simp add: pad_def)

lemma row3_set_cell: "row3 (set_cell 3 c v g) = (pad c [] (row3 g))[c - 1 := v]"
  using set_cell_length [of c v g] by (simp add: row3_def set_cell_row)

lemma strip_nonempty: "strip s \<noteq> [] \<Longrightarrow> s \<noteq> []"
  by auto

lemma has_result_columns_row3:
  "has_result_columns ws \<longleftrightarrow>
     8 \<le> length (row3 (cells ws)) \<and> strip (row3 (cells ws) ! 6) \<noteq> [] \<and> strip (row3 (cells ws) ! 7) \<noteq> []"
  by (auto simp: has_result_columns_def row3_def)

lemma row_values_ok:
  "faults ws = [] \<or> \<not> hd (faults ws) \<Longrightarrow>
   row_values ws 3 = (Some (trim (row3 (cells ws))), ws\<lparr>faults := tl (faults ws)\<rparr>)"
  by (cases "faults ws") (auto simp: row_values_def next_call_def row3_def trim_def)

lemma update_cell_ok:
  "faults ws = [] \<Longrightarrow>
   update_cell ws r c v = (True, ws\<lparr>cells := set_cell r c v (cells ws), writes := writes ws @ [(r, c, v)]\<rparr>)"
  by (simp add: update_cell_def next_call_def)

lemma ensure_unchanged:
  assumes "has_result_columns ws" and "faults ws = [] \<or> \<not> hd (faults ws)"
  shows "ensure_result_columns ws = (True, ws\<lparr>faults := tl (faults ws)\<rparr>)"
proof -
  let ?row = "row3 (cells ws)"
  from assms(1) have row: "8 \<le> length ?row" "strip (?row ! 6) \<noteq> []" "strip (?row ! 7) \<noteq> []"
    by (simp_all add: has_result_columns_row3)
  then have ne: "?row ! 6 \<noteq> []" "?row ! 7 \<noteq> []" by auto
  from row ne have len: "7 < length (trim ?row)" by (intro trim_covers) simp_all
  then have "trim ?row ! 6 = ?row ! 6" "trim ?row ! 7 = ?row ! 7"
    by (simp_all add: trim_nth)
  with len row ne show ?thesis
    by (simp add: ensure_result_columns_def row_values_ok [OF assms(2)] Let_def)
qed

lemma ensure_adds:
  assumes "faults ws = []"
  shows "\<exists>ws1. ensure_result_columns ws = (True, ws1) \<and> faults ws1 = [] \<and> has_result_columns ws1"
proof -
  let ?row = "row3 (cells ws)"
  let ?h = "trim ?row"
  let ?c7 = "length ?h < 7 \<or> (length ?h \<ge> 7 \<and> (?h ! 6 = [] \<or> strip (?h ! 6) = []))"
  let ?c8 = "length ?h < 8 \<or> (length ?h \<ge> 8 \<and> (?h ! 7 = [] \<or> strip (?h ! 7) = []))"
  have em: "strip (ascii ''Error Message'') \<noteq> []" and ss: "strip (ascii ''Screenshot'') \<noteq> []"
    by (simp_all add: ascii_def strip_def isspace_def)
  have rv: "row_values ws 3 = (Some ?h, ws)"
    using row_values_ok [of ws] assms by simp
  have keep7: "7 \<le> length ?row \<and> strip (?row ! 6) \<noteq> []" if "\<not> ?c7"
    using that trim_length_le [of ?row] trim_nth [of 6 ?row] by auto
  have keep8: "8 \<le> length ?row \<and> strip (?row ! 7) \<noteq> []" if "\<not> ?c8"
    using that trim_length_le [of ?row] trim_nth [of 7 ?row] by auto
  consider "?c7" "?c8" | "?c7" "\<not> ?c8" | "\<not> ?c7" "?c8" | "\<not> ?c7" "\<not> ?c8" by blast
  then show ?thesis
  proof cases
    case 1
    let ?ws1 = "ws\<lparr>cells := set_cell 3 7 (ascii ''Error Message'') (cells ws),
                    writes := writes ws @ [(3, 7, ascii ''Error Message'')]\<rparr>"
    let ?ws2 = "?ws1\<lparr>cells := set_cell 3 8 (ascii ''Screenshot'') (cells ?ws1),
                    writes := writes ?ws1 @ [(3, 8, ascii ''Screenshot'')]\<rparr>"
    from 1 have "ensure_result_columns ws = (True, ?ws2)"
      unfolding ensure_result_columns_def rv
      by (simp add: Let_def update_cell_ok assms)
    moreover have "has_result_columns ?ws2"
      using em ss
      by (auto simp: has_result_columns_row3 row3_set_cell pad_def nth_append nth_list_update)
    ultimately show ?thesis using assms by simp
  next
    case 2
    let ?ws1 = "ws\<lparr>cells := set_cell 3 7 (ascii ''Error Message'') (cells ws),
                    writes := writes ws @ [(3, 7, ascii ''Error Message'')]\<rparr>"
    from 2 have "ensure_result_columns ws = (True, ?ws1)"
      unfolding ensure_result_columns_def rv
      by (simp add: Let_def update_cell_ok assms)
    moreover have "has_result_columns ?ws1"
      using em keep8 [OF 2(2)]
      by (auto simp: has_result_columns_row3 row3_set_cell pad_def nth_append nth_list_update)
    ultimately show ?thesis using assms by simp
  next
    case 3
    let ?ws1 = "ws\<lparr>cells := set_cell 3 8 (ascii ''Screenshot'') (cells ws),
                    writes := writes ws @ [(3, 8, ascii ''Screenshot'')]\<rparr>"
    from 3 have "ensure_result_columns ws = (True, ?ws1)"
      unfolding ensure_result_columns_def rv
      by (simp add: Let_def update_cell_ok assms)
    moreover have "has_result_columns ?ws1"
      using ss keep7 [OF 3(1)]
      by (auto simp: has_result_columns_row3 row3_set_cell pad_def nth_append nth_list_update)
    ultimately show ?thesis using assms by simp
  next
    case 4
    from 4 have "ensure_result_columns ws = (True, ws)"
      unfolding ensure_result_columns_def rv
      by (simp add: Let_def)
    moreover have "has_result_columns ws"
      using keep7 [OF 4(1)] keep8 [OF 4(2)] by (simp add: has_result_columns_row3)
    ultimately show ?thesis using assms by simp
  qed
qed


lemma ensure_read_fault:
  assumes "faults ws = True # fs"
  shows "ensure_result_columns ws = (False, ws\<lparr>faults := fs\<rparr>)"
  using assms by (simp add: ensure_result_columns_def row_values_def next_call_def)

text \<open>
  Claim C9, as the code has it. On a worksheet whose row 3 already has non-blank cells
  in columns 7 and 8, the column-ensure step writes no cell and leaves the grid as it
  is, whether or not its remote call raises, and it returns success exactly when the
  read of row 3 does not raise. While no remote call raises, the step succeeds and
  leaves such a worksheet, so a second run right after the first succeeds, writes
  nothing and leaves the worksheet, its header row included, as the first run left it.
\<close>

theorem ensure_result_columns_idempotent:
  "(has_result_columns ws \<longrightarrow>
      cells (snd (ensure_result_columns ws)) = cells ws \<and>
      writes (snd (ensure_result_columns ws)) = writes ws \<and>
      (fst (ensure_result_columns ws) \<longleftrightarrow> faults ws = [] \<or> \<not> hd (faults ws)))
   \<and> (faults ws = [] \<longrightarrow>
        (\<exists>ws1. ensure_result_columns ws = (True, ws1) \<and> has_result_columns ws1 \<and>
               ensure_result_columns ws1 = (True, ws1)))"
proof (rule conjI; rule impI)
  assume h: "has_result_columns ws"
  show "cells (snd (ensure_result_columns ws)) = cells ws \<and>
      writes (snd (ensure_result_columns ws)) = writes ws \<and>
      (fst (ensure_result_columns ws) \<longleftrightarrow> faults ws = [] \<or> \<not> hd (faults ws))"
  proof (cases "faults ws = [] \<or> \<not> hd (faults ws)")
    case True
    with h have "ensure_result_columns ws = (True, ws\<lparr>faults := tl (faults ws)\<rparr>)"
      by (simp add: ensure_unchanged)
    with True show ?thesis by simp
  next
    case False
    then obtain fs where "faults ws = True # fs"
      by (cases "faults ws") auto
    then have "ensure_result_columns ws = (False, ws\<lparr>faults := fs\<rparr>)"
      by (rule ensure_read_fault)
    with False show ?thesis by simp
  qed
next
  assume "faults ws = []"
  then obtain ws1 where 1: "ensure_result_columns ws = (True, ws1)" "faults ws1 = []"
      "has_result_columns ws1"
    using ensure_adds by blast
  then have "ensure_result_columns ws1 = (True, ws1)"
    using ensure_unchanged [of ws1] by simp
  with 1 show "\<exists>ws1. ensure_result_columns ws = (True, ws1) \<and> has_result_columns ws1 \<and>
               ensure_result_columns ws1 = (True, ws1)"
    by blast
qed

theorem ensure_result_columns_idempotent_witness:
  "ensure_result_columns
     \<lparr>cells = [[ascii ''brd.pdf''], [],
               [ascii ''Test ID'', ascii ''Description'', ascii ''Steps'',
                ascii ''Expected Result'', ascii ''Priority'', ascii ''Result'']],
      writes = [], faults = []\<rparr>
   = (True,
      \<lparr>cells = [[ascii ''brd.pdf''], [],
                [ascii ''Test ID'', ascii ''Description'', ascii ''Steps'',
                 ascii ''Expected Result'', ascii ''Priority'', ascii ''Result'',
                 ascii ''Error Message'', ascii ''Screenshot'']],
       writes = [(3, 7, ascii ''Error Message''), (3, 8, ascii ''Screenshot'')],
       faults = []\<rparr>)
   \<and> ensure_result_columns
     \<lparr>cells = [[ascii ''brd.pdf''], [],
               [ascii ''Test ID'', ascii ''Description'', ascii ''Steps'',
                ascii ''Expected Result'', ascii ''Priority'', ascii ''Result'',
                ascii ''Error Message'', ascii ''Screenshot'']],
      writes = [(3, 7, ascii ''Error Message''), (3, 8, ascii ''Screenshot'')],
      faults = []\<rparr>
   = (True,
      \<lparr>cells = [[ascii ''brd.pdf''], [],
                [ascii ''Test ID'', ascii ''Description'', ascii ''Steps'',
                 ascii ''Expected Result'', ascii ''Priority'', ascii ''Result'',
                 ascii ''Error Message'', ascii ''Screenshot'']],
       writes = [(3, 7, ascii ''Error Message''), (3, 8, ascii ''Screenshot'')],
       faults = []\<rparr>)"
proof -
  let ?ws0 = "\<lparr>cells = [[ascii ''brd.pdf''], [],
               [ascii ''Test ID'', ascii ''Description'', ascii ''Steps'',
                ascii ''Expected Result'', ascii ''Priority'', ascii ''Result'']],
      writes = [], faults = []\<rparr>"
  let ?ws1 = "\<lparr>cells = [[ascii ''brd.pdf''], [],
                [ascii ''Test ID'', ascii ''Description'', ascii ''Steps'',
                 ascii ''Expected Result'', ascii ''Priority'', ascii ''Result'',
                 ascii ''Error Message'', ascii ''Screenshot'']],
       writes = [(3, 7, ascii ''Error Message''), (3, 8, ascii ''Screenshot'')],
       faults = []\<rparr>"
  have first: "ensure_result_columns ?ws0 = (True, ?ws1)"
    by (simp add: ensure_result_columns_def row_values_def next_call_def trim_def update_cell_def
          set_cell_def pad_def ascii_def Let_def numeral_2_eq_2)
  have h1: "has_result_columns ?ws1"
    by (simp add: has_result_columns_def ascii_def strip_def isspace_def)
  have f0: "faults ?ws0 = []" by simp
  from ensure_result_columns_idempotent [of ?ws0] f0 first
  have second: "ensure_result_columns ?ws1 = (True, ?ws1)"
    by auto
  from ensure_result_columns_idempotent [of ?ws1] h1
  have "fst (ensure_result_columns ?ws1)" by simp
  with first second show ?thesis by simp
qed

text \<open>
  Claim C9 as it is worded fails when a remote call raises. With both headers present
  and the read of row 3 raising, the step returns \<open>False\<close>. And when the second write
  of a first run raises, the first run leaves column 7 written and column 8 not, and
  the second run writes column 8: the header row after two runs is not the one after
  one run.
\<close>

theorem ensure_result_columns_fault_counterexample:
  "has_result_columns
     \<lparr>cells = [[ascii ''brd.pdf''], [],
               [ascii ''Test ID'', ascii ''Description'', ascii ''Steps'',
                ascii ''Expected Result'', ascii ''Priority'', ascii ''Result'',
                ascii ''Error Message'', ascii ''Screenshot'']],
      writes = [], faults = [True]\<rparr>
   \<and> \<not> fst (ensure_result_columns
     \<lparr>cells = [[ascii ''brd.pdf''], [],
               [ascii ''Test ID'', ascii ''Description'', ascii ''Steps'',
                ascii ''Expected Result'', ascii ''Priority'', ascii ''Result'',
                ascii ''Error Message'', ascii ''Screenshot'']],
      writes = [], faults = [True]\<rparr>)
   \<and> cells (snd (ensure_result_columns (snd (ensure_result_columns
     \<lparr>cells = [[ascii ''brd.pdf''], [],
               [ascii ''Test ID'', ascii ''Description'', ascii ''Steps'',
                ascii ''Expected Result'', ascii ''Priority'', ascii ''Result'']],
      writes = [], faults = [False, False, True]\<rparr>)))) ! 2
     \<noteq> cells (snd (ensure_result_columns
     \<lparr>cells = [[ascii ''brd.pdf''], [],
               [ascii ''Test ID'', ascii ''Description'', ascii ''Steps'',
                ascii ''Expected Result'', ascii ''Priority'', ascii ''Result'']],
      writes = [], faults = [False, False, True]\<rparr>)) ! 2"
proof -
  let ?wsp = "\<lparr>cells = [[ascii ''brd.pdf''], [],
               [ascii ''Test ID'', ascii ''Description'', ascii ''Steps'',
                ascii ''Expected Result'', ascii ''Priority'', ascii ''Result'',
                ascii ''Error Message'', ascii ''Screenshot'']],
      writes = [], faults = [True]\<rparr>"
  let ?ws0 = "\<lparr>cells = [[ascii ''brd.pdf''], [],
               [ascii ''Test ID'', ascii ''Description'', ascii ''Steps'',
                ascii ''Expected Result'', ascii ''Priority'', ascii ''Result'']],
      writes = [], faults = [False, False, True]\<rparr>"
  let ?ws1 = "\<lparr>cells = [[ascii ''brd.pdf''], [],
               [ascii ''Test ID'', ascii ''Description'', ascii ''Steps'',
                ascii ''Expected Result'', ascii ''Priority'', ascii ''Result'',
                ascii ''Error Message'']],
      writes = [(3, 7, ascii ''Error Message'')], faults = []\<rparr>"
  let ?ws2 = "\<lparr>cells = [[ascii ''brd.pdf''], [],
               [ascii ''Test ID'', ascii ''Description'', ascii ''Steps'',
                ascii ''Expected Result'', ascii ''Priority'', ascii ''Result'',
                ascii ''Error Message'', ascii ''Screenshot'']],
      writes = [(3, 7, ascii ''Error Message''), (3, 8, ascii ''Screenshot'')], faults = []\<rparr>"
  have a: "has_result_columns ?wsp"
    by (simp add: has_result_columns_def ascii_def strip_def isspace_def)
  have b: "ensure_result_columns ?wsp = (False, ?wsp\<lparr>faults := []\<rparr>)"
    by (rule ensure_read_fault) simp
  have c: "ensure_result_columns ?ws0 = (False, ?ws1)"
    by (simp add: ensure_result_columns_def row_values_def next_call_def trim_def update_cell_def
          set_cell_def pad_def ascii_def Let_def numeral_2_eq_2)
  have d: "ensure_result_columns ?ws1 = (True, ?ws2)"
    by (simp add: ensure_result_columns_def row_values_def next_call_def trim_def update_cell_def
          set_cell_def pad_def ascii_def strip_def isspace_def Let_def numeral_2_eq_2)
  show ?thesis
    unfolding b c d snd_conv fst_conv using a by (simp add: numeral_2_eq_2)
qed

section \<open>Properties of the generation in batches\<close>

lemma parse_test_cases_cases:
  "(\<exists>recs. recs \<noteq> [] \<and> parse_test_cases b t = (True, recs, None)) \<or>
   (\<exists>err. parse_test_cases b t = (False, [], Some err))"
proof (cases t)
  case None
  then show ?thesis by (simp add: parse_test_cases_def)
next
  case (Some resp)
  define c where "c = clean_response resp"
  show ?thesis
  proof (cases "find_char 91 c")
    case None
    with Some show ?thesis by (simp add: parse_test_cases_def c_def)
  next
    case first: (Some i)
    show ?thesis
    proof (cases "rfind_char 93 c")
      case None
      with Some first show ?thesis by (simp add: parse_test_cases_def c_def)
    next
      case last: (Some j)
      show ?thesis
      proof (cases "json_loads b (take (j + 1) (drop i c))")
        case (Loaded v)
        show ?thesis
        proof (cases "\<exists>items. v = JArr items")
          case True
          then obtain items where "v = JArr items" by blast
          with Some first last Loaded show ?thesis
            by (cases "validate b items") (simp_all add: parse_test_cases_def c_def)
        next
          case False
          with Some first last Loaded show ?thesis
            by (cases v) (simp_all add: parse_test_cases_def c_def)
        qed
      next
        case (DecodeError e)
        with Some first last show ?thesis by (simp add: parse_test_cases_def c_def)
      next
        case (LoadRaises e)
        with Some first last show ?thesis by (simp add: parse_test_cases_def c_def)
      qed
    qed
  qed
qed


lemma parse_test_cases_success:
  "parse_test_cases b t = (True, recs, e) \<Longrightarrow> recs \<noteq> [] \<and> e = None"
  using parse_test_cases_cases [of b t] by auto

lemma parse_test_cases_failure:
  "\<not> fst (parse_test_cases b t) \<Longrightarrow> \<exists>err. parse_test_cases b t = (False, [], Some err)"
  using parse_test_cases_cases [of b t] by auto

lemma batch1_api_failure:
  assumes "batch_mode" "70 \<le> target_count"
    and "svc sent (Generate HappyPath brd 30, 12000) = ApiRaises e"
  shows "generate_test_cases b svc sent brd target_count batch_mode =
           ((False, [], Some (ApiError e), None), sent @ [(Generate HappyPath brd 30, 12000)])"
  using assms
  by (simp add: generate_test_cases_def call_chatgpt_def create_prompt_ui_happy_path_def Let_def)

lemma batch1_parse_failure:
  assumes "batch_mode" "70 \<le> target_count"
    and "svc sent (Generate HappyPath brd 30, 12000) = Completion t1"
    and "parse_test_cases b t1 = (False, l, err)"
  shows "generate_test_cases b svc sent brd target_count batch_mode =
           ((False, [], err, None), sent @ [(Generate HappyPath brd 30, 12000)])"
  using assms
  by (simp add: generate_test_cases_def call_chatgpt_def create_prompt_ui_happy_path_def Let_def)


lemma batch2_api_failure:
  assumes "batch_mode" "70 \<le> target_count"
    and "svc sent (Generate HappyPath brd 30, 12000) = Completion t1"
    and "parse_test_cases b t1 = (True, recs1, e1)"
    and "svc (sent @ [(Generate HappyPath brd 30, 12000)]) (Generate Validation brd 30, 12000)
           = ApiRaises e"
  shows "generate_test_cases b svc sent brd target_count batch_mode =
           ((True, recs1, Some Batch2Failed,
             Some \<lparr>batch1_happy_path =
                     \<lparr>name = ascii ''UI Happy Path (MainFlow)'', count = length recs1,
                      percentage = 100\<rparr>,
                   batch2_validation = \<lparr>name = ascii ''UI Validation'', count = 0, percentage = 0\<rparr>,
                   batch3_edge_cases =
                     \<lparr>name = ascii ''UI Boundary (Edge Cases)'', count = 0, percentage = 0\<rparr>\<rparr>),
            sent @ [(Generate HappyPath brd 30, 12000), (Generate Validation brd 30, 12000)])"
  using assms
  by (simp add: generate_test_cases_def call_chatgpt_def create_prompt_ui_happy_path_def
        create_prompt_ui_validation_def Let_def)

lemma batch2_parse_failure:
  assumes "batch_mode" "70 \<le> target_count"
    and "svc sent (Generate HappyPath brd 30, 12000) = Completion t1"
    and "parse_test_cases b t1 = (True, recs1, e1)"
    and "svc (sent @ [(Generate HappyPath brd 30, 12000)]) (Generate Validation brd 30, 12000)
           = Completion t2"
    and "parse_test_cases b t2 = (False, l, err)"
  shows "generate_test_cases b svc sent brd target_count batch_mode =
           ((True, recs1, Some Batch2ParsingFailed,
             Some \<lparr>batch1_happy_path =
                     \<lparr>name = ascii ''UI Happy Path (MainFlow)'', count = length recs1,
                      percentage = 100\<rparr>,
                   batch2_validation = \<lparr>name = ascii ''UI Validation'', count = 0, percentage = 0\<rparr>,
                   batch3_edge_cases =
                     \<lparr>name = ascii ''UI Boundary (Edge Cases)'', count = 0, percentage = 0\<rparr>\<rparr>),
            sent @ [(Generate HappyPath brd 30, 12000), (Generate Validation brd 30, 12000)])"
  using assms
  by (simp add: generate_test_cases_def call_chatgpt_def create_prompt_ui_happy_path_def
        create_prompt_ui_validation_def Let_def)

lemma batch3_reached:
  assumes "batch_mode" "70 \<le> target_count"
    and "svc sent (Generate HappyPath brd 30, 12000) = Completion t1"
    and "parse_test_cases b t1 = (True, recs1, e1)"
    and "svc (sent @ [(Generate HappyPath brd 30, 12000)]) (Generate Validation brd 30, 12000)
           = Completion t2"
    and "parse_test_cases b t2 = (True, recs2, e2)"
  shows "fst (fst (generate_test_cases b svc sent brd target_count batch_mode)) \<and>
         snd (generate_test_cases b svc sent brd target_count batch_mode) =
           sent @ [(Generate HappyPath brd 30, 12000), (Generate Validation brd 30, 12000),
                   (Generate EdgeCases brd (target_count - 60), 12000)]"
proof -
  let ?r3 = "svc (sent @ [(Generate HappyPath brd 30, 12000), (Generate Validation brd 30, 12000)])
               (Generate EdgeCases brd (target_count - 60), 12000)"
  show ?thesis
  proof (cases ?r3)
    case (ApiRaises e)
    with assms show ?thesis
      by (simp add: generate_test_cases_def call_chatgpt_def create_prompt_ui_happy_path_def
            create_prompt_ui_validation_def create_prompt_ui_edge_cases_def Let_def)
  next
    case (Completion t3)
    obtain ok3 recs3 e3 where "parse_test_cases b t3 = (ok3, recs3, e3)"
      by (cases "parse_test_cases b t3") auto
    with Completion assms show ?thesis
      by (simp add: generate_test_cases_def call_chatgpt_def create_prompt_ui_happy_path_def
            create_prompt_ui_validation_def create_prompt_ui_edge_cases_def Let_def)
  qed
qed

lemma single_batch:
  assumes "\<not> (batch_mode \<and> 70 \<le> target_count)"
  shows "snd (generate_test_cases b svc sent brd target_count batch_mode) =
           sent @ [(Generate HappyPath brd target_count, 12000)]"
proof -
  from assms have c: "(batch_mode \<and> 70 \<le> target_count) = False" by simp
  show ?thesis
  proof (cases "svc sent (Generate HappyPath brd target_count, 12000)")
    case (ApiRaises e)
    then show ?thesis
      unfolding generate_test_cases_def c
      by (simp add: call_chatgpt_def create_prompt_ui_happy_path_def Let_def)
  next
    case (Completion t)
    obtain ok recs e where "parse_test_cases b t = (ok, recs, e)"
      by (cases "parse_test_cases b t") auto
    with Completion show ?thesis
      unfolding generate_test_cases_def c
      by (simp add: call_chatgpt_def create_prompt_ui_happy_path_def Let_def)
  qed
qed


lemma example_clean: "clean_response example_reply = example_reply"
  by (simp add: clean_response_def example_reply_def quoted_def ascii_def strip_def isspace_def
        startswith_def endswith_def Let_def)

lemma example_brackets:
  "find_char 91 example_reply = Some 0" "rfind_char 93 example_reply = Some (length example_reply - 1)"
  by (simp_all add: find_char_def rfind_char_def example_reply_def quoted_def ascii_def)

lemma example_check_item:
  "check_item example_builtins (JObj example_record) = Inr (Some example_record)"
  by (simp add: check_item_def required_fields_def example_record_def normalise_def set_field_def
        py_str_def example_builtins_def ascii_def strip_def isspace_def)

lemma example_loads:
  "json_loads example_builtins example_reply = Loaded (JArr [JObj example_record])"
  by (simp add: example_builtins_def)

lemma example_parse:
  "parse_test_cases example_builtins (Some example_reply) = (True, [example_record], None)"
proof -
  have "take (length example_reply - 1 + 1) (drop 0 example_reply) = example_reply"
    by (simp add: example_reply_def quoted_def)
  then show ?thesis
    by (simp add: parse_test_cases_def example_clean example_brackets example_check_item
          example_loads Let_def)
qed

lemma example_parse_failure:
  "parse_test_cases example_builtins (Some (ascii ''Sorry'')) = (False, [], Some NoJsonArray)"
  by (simp add: parse_test_cases_def clean_response_def find_char_def rfind_char_def ascii_def
        strip_def isspace_def startswith_def endswith_def Let_def)


text \<open>
  Claim C1. In the three-batch protocol, when batch 1 succeeds with the records \<open>recs1\<close>
  and batch 2 fails, by an error of the call or by a response that does not parse, the
  result is a success with exactly the records of batch 1, which are not empty, and a
  breakdown in which batch 1 has percentage 100 and batches 2 and 3 have count 0 and
  percentage 0; two requests have been made and no third one.
\<close>

theorem generate_test_cases_batch2_failure:
  assumes "batch_mode" and "70 \<le> target_count"
    and "svc sent (create_prompt_ui_happy_path brd 30, 12000) = Completion t1"
    and "parse_test_cases b t1 = (True, recs1, e1)"
    and "(\<exists>e. svc (sent @ [(create_prompt_ui_happy_path brd 30, 12000)])
                (create_prompt_ui_validation brd 30, 12000) = ApiRaises e) \<or>
         (\<exists>t2. svc (sent @ [(create_prompt_ui_happy_path brd 30, 12000)])
                (create_prompt_ui_validation brd 30, 12000) = Completion t2 \<and>
               \<not> fst (parse_test_cases b t2))"
  shows "recs1 \<noteq> [] \<and>
         (\<exists>err. generate_test_cases b svc sent brd target_count batch_mode =
            ((True, recs1, Some err,
              Some \<lparr>batch1_happy_path =
                      \<lparr>name = ascii ''UI Happy Path (MainFlow)'', count = length recs1,
                       percentage = 100\<rparr>,
                    batch2_validation = \<lparr>name = ascii ''UI Validation'', count = 0, percentage = 0\<rparr>,
                    batch3_edge_cases =
                      \<lparr>name = ascii ''UI Boundary (Edge Cases)'', count = 0, percentage = 0\<rparr>\<rparr>),
             sent @ [(create_prompt_ui_happy_path brd 30, 12000),
                     (create_prompt_ui_validation brd 30, 12000)]))"
proof -
  note a = assms(3-5) [unfolded create_prompt_ui_happy_path_def create_prompt_ui_validation_def]
  have "\<exists>err. generate_test_cases b svc sent brd target_count batch_mode =
            ((True, recs1, Some err,
              Some \<lparr>batch1_happy_path =
                      \<lparr>name = ascii ''UI Happy Path (MainFlow)'', count = length recs1,
                       percentage = 100\<rparr>,
                    batch2_validation = \<lparr>name = ascii ''UI Validation'', count = 0, percentage = 0\<rparr>,
                    batch3_edge_cases =
                      \<lparr>name = ascii ''UI Boundary (Edge Cases)'', count = 0, percentage = 0\<rparr>\<rparr>),
             sent @ [(Generate HappyPath brd 30, 12000), (Generate Validation brd 30, 12000)])"
    using a(3)
  proof (elim disjE exE conjE)
    fix e
    assume "svc (sent @ [(Generate HappyPath brd 30, 12000)]) (Generate Validation brd 30, 12000)
              = ApiRaises e"
    from batch2_api_failure [OF assms(1,2) a(1,2) this] show ?thesis by blast
  next
    fix t2
    assume r: "svc (sent @ [(Generate HappyPath brd 30, 12000)]) (Generate Validation brd 30, 12000)
              = Completion t2" and "\<not> fst (parse_test_cases b t2)"
    then obtain err where "parse_test_cases b t2 = (False, [], Some err)"
      using parse_test_cases_failure by blast
    from batch2_parse_failure [OF assms(1,2) a(1,2) r this] show ?thesis by blast
  qed
  moreover from assms(4) have "recs1 \<noteq> []" by (simp add: parse_test_cases_success)
  ultimately show ?thesis
    by (simp add: create_prompt_ui_happy_path_def create_prompt_ui_validation_def)
qed

theorem generate_test_cases_batch2_failure_witness:
  "\<exists>err. generate_test_cases example_builtins example_service [] (ascii ''Login page'') 90 True =
     ((True, [example_record], Some err,
       Some \<lparr>batch1_happy_path =
               \<lparr>name = ascii ''UI Happy Path (MainFlow)'', count = 1, percentage = 100\<rparr>,
             batch2_validation = \<lparr>name = ascii ''UI Validation'', count = 0, percentage = 0\<rparr>,
             batch3_edge_cases =
               \<lparr>name = ascii ''UI Boundary (Edge Cases)'', count = 0, percentage = 0\<rparr>\<rparr>),
      [(Generate HappyPath (ascii ''Login page'') 30, 12000),
       (Generate Validation (ascii ''Login page'') 30, 12000)])"
proof -
  let ?brd = "ascii ''Login page''"
  have 1: "example_service [] (create_prompt_ui_happy_path ?brd 30, 12000)
             = Completion (Some example_reply)"
    by (simp add: example_service_def)
  have 2: "(\<exists>e. example_service ([] @ [(create_prompt_ui_happy_path ?brd 30, 12000)])
                (create_prompt_ui_validation ?brd 30, 12000) = ApiRaises e) \<or>
         (\<exists>t2. example_service ([] @ [(create_prompt_ui_happy_path ?brd 30, 12000)])
                (create_prompt_ui_validation ?brd 30, 12000) = Completion t2 \<and>
               \<not> fst (parse_test_cases example_builtins t2))"
    by (simp add: example_service_def)
  have 3: "True" "(70::int) \<le> 90" by simp_all
  from generate_test_cases_batch2_failure [OF 3 1 example_parse 2]
  show ?thesis
    by (simp add: create_prompt_ui_happy_path_def create_prompt_ui_validation_def)
qed

text \<open>
  Claim C2. In the three-batch protocol, when batch 1 fails, by an error of the call or
  by a response that does not parse into at least one valid record, the result is a
  failure with no records, an error message and no breakdown, after the one request.
  It is the only such batch: a result that is a failure comes from a failure of batch 1.
\<close>

theorem generate_test_cases_batch1_failure:
  assumes "batch_mode" and "70 \<le> target_count"
  shows "(((\<exists>e. svc sent (create_prompt_ui_happy_path brd 30, 12000) = ApiRaises e) \<or>
           (\<exists>t1. svc sent (create_prompt_ui_happy_path brd 30, 12000) = Completion t1 \<and>
                 \<not> fst (parse_test_cases b t1))) \<longrightarrow>
          (\<exists>err. generate_test_cases b svc sent brd target_count batch_mode =
             ((False, [], Some err, None), sent @ [(create_prompt_ui_happy_path brd 30, 12000)])))
       \<and> (\<not> fst (fst (generate_test_cases b svc sent brd target_count batch_mode)) \<longrightarrow>
            (\<exists>e. svc sent (create_prompt_ui_happy_path brd 30, 12000) = ApiRaises e) \<or>
            (\<exists>t1. svc sent (create_prompt_ui_happy_path brd 30, 12000) = Completion t1 \<and>
                  \<not> fst (parse_test_cases b t1)))"
proof -
  let ?g = "generate_test_cases b svc sent brd target_count batch_mode"
  let ?r1 = "svc sent (Generate HappyPath brd 30, 12000)"
  let ?r2 = "svc (sent @ [(Generate HappyPath brd 30, 12000)]) (Generate Validation brd 30, 12000)"
  have fails: "\<exists>err. ?g = ((False, [], Some err, None), sent @ [(Generate HappyPath brd 30, 12000)])"
    if "(\<exists>e. ?r1 = ApiRaises e) \<or> (\<exists>t1. ?r1 = Completion t1 \<and> \<not> fst (parse_test_cases b t1))"
    using that
  proof (elim disjE exE conjE)
    fix e assume "?r1 = ApiRaises e"
    from batch1_api_failure [where svc=svc and sent=sent, OF assms this] show ?thesis by blast
  next
    fix t1 assume r: "?r1 = Completion t1" and "\<not> fst (parse_test_cases b t1)"
    then obtain err where "parse_test_cases b t1 = (False, [], Some err)"
      using parse_test_cases_failure by blast
    from batch1_parse_failure [where svc=svc and sent=sent, OF assms r this] show ?thesis by blast
  qed
  have only: "fst (fst ?g)"
    if r: "?r1 = Completion t1" and p: "fst (parse_test_cases b t1)" for t1
  proof -
    from p obtain recs1 e1 where p1: "parse_test_cases b t1 = (True, recs1, e1)"
      by (cases "parse_test_cases b t1") auto
    show ?thesis
    proof (cases ?r2)
      case (ApiRaises e)
      from batch2_api_failure [where svc=svc and sent=sent, OF assms r p1 this] show ?thesis by simp
    next
      case (Completion t2)
      show ?thesis
      proof (cases "fst (parse_test_cases b t2)")
        case True
        then obtain recs2 e2 where "parse_test_cases b t2 = (True, recs2, e2)"
          by (cases "parse_test_cases b t2") auto
        from batch3_reached [where svc=svc and sent=sent, OF assms r p1 Completion this] show ?thesis by simp
      next
        case False
        then obtain err where "parse_test_cases b t2 = (False, [], Some err)"
          using parse_test_cases_failure by blast
        from batch2_parse_failure [where svc=svc and sent=sent, OF assms r p1 Completion this] show ?thesis by simp
      qed
    qed
  qed
  have conv: "(\<exists>e. ?r1 = ApiRaises e) \<or> (\<exists>t1. ?r1 = Completion t1 \<and> \<not> fst (parse_test_cases b t1))"
    if "\<not> fst (fst ?g)"
    using that only by (cases ?r1) auto
  from fails conv show ?thesis
    unfolding create_prompt_ui_happy_path_def by blast
qed

theorem generate_test_cases_batch1_failure_witness:
  "\<exists>err. generate_test_cases example_builtins
     (\<lambda>sent req. Completion (Some (ascii ''Sorry, I cannot help with that.'')))
     [] (ascii ''Login page'') 90 True =
     ((False, [], Some err, None), [(Generate HappyPath (ascii ''Login page'') 30, 12000)])"
proof -
  let ?svc = "\<lambda>(sent::request list) (req::request). Completion (Some (ascii ''Sorry, I cannot help with that.''))"
  let ?brd = "ascii ''Login page''"
  have p: "\<not> fst (parse_test_cases example_builtins (Some (ascii ''Sorry, I cannot help with that.'')))"
    by (simp add: parse_test_cases_def clean_response_def find_char_def rfind_char_def ascii_def
          strip_def isspace_def startswith_def endswith_def Let_def)
  then have 1: "(\<exists>e. ?svc [] (create_prompt_ui_happy_path ?brd 30, 12000) = ApiRaises e) \<or>
           (\<exists>t1. ?svc [] (create_prompt_ui_happy_path ?brd 30, 12000) = Completion t1 \<and>
                 \<not> fst (parse_test_cases example_builtins t1))"
    by simp
  have 2: "True" "(70::int) \<le> 90" by simp_all
  from generate_test_cases_batch1_failure [OF 2, of ?svc "[]" ?brd example_builtins] 1
  show ?thesis
    by (simp add: create_prompt_ui_happy_path_def)
qed

text \<open>
  Claim C3. With batch mode on and a target of at least 70, the requests made are the
  first one, two or three of the three-batch protocol: the happy-path template for 30
  test cases, the validation template for 30, the edge-case template for the target
  minus 60, three sizes that add up to the target; all three are made when the first
  two batches succeed. In every other case exactly one request is made, the happy-path
  template for the whole target.
\<close>

theorem generate_test_cases_requests:
  "(batch_mode \<and> 70 \<le> target_count \<longrightarrow>
      (\<exists>n \<in> {1, 2, 3}.
         snd (generate_test_cases b svc sent brd target_count batch_mode) =
           sent @ take n [(create_prompt_ui_happy_path brd 30, 12000),
                          (create_prompt_ui_validation brd 30, 12000),
                          (create_prompt_ui_edge_cases brd (target_count - 60), 12000)]) \<and>
      30 + 30 + (target_count - 60) = target_count \<and>
      (\<forall>t1 t2. svc sent (create_prompt_ui_happy_path brd 30, 12000) = Completion t1 \<and>
               fst (parse_test_cases b t1) \<and>
               svc (sent @ [(create_prompt_ui_happy_path brd 30, 12000)])
                   (create_prompt_ui_validation brd 30, 12000) = Completion t2 \<and>
               fst (parse_test_cases b t2) \<longrightarrow>
         snd (generate_test_cases b svc sent brd target_count batch_mode) =
           sent @ [(create_prompt_ui_happy_path brd 30, 12000),
                   (create_prompt_ui_validation brd 30, 12000),
                   (create_prompt_ui_edge_cases brd (target_count - 60), 12000)]))
   \<and> (\<not> (batch_mode \<and> 70 \<le> target_count) \<longrightarrow>
        snd (generate_test_cases b svc sent brd target_count batch_mode) =
          sent @ [(create_prompt_ui_happy_path brd target_count, 12000)])"
proof (rule conjI; rule impI)
  assume c: "batch_mode \<and> 70 \<le> target_count"
  then have bm: "batch_mode" and tc: "70 \<le> target_count" by simp_all
  let ?g = "generate_test_cases b svc sent brd target_count batch_mode"
  let ?q1 = "(Generate HappyPath brd 30, 12000) :: request"
  let ?q2 = "(Generate Validation brd 30, 12000) :: request"
  let ?q3 = "(Generate EdgeCases brd (target_count - 60), 12000) :: request"
  have all3: "snd ?g = sent @ [?q1, ?q2, ?q3]"
    if r1: "svc sent ?q1 = Completion t1" and p1: "fst (parse_test_cases b t1)"
      and r2: "svc (sent @ [?q1]) ?q2 = Completion t2" and p2: "fst (parse_test_cases b t2)"
    for t1 t2
  proof -
    from p1 obtain recs1 e1 where p1': "parse_test_cases b t1 = (True, recs1, e1)"
      by (cases "parse_test_cases b t1") auto
    from p2 obtain recs2 e2 where p2': "parse_test_cases b t2 = (True, recs2, e2)"
      by (cases "parse_test_cases b t2") auto
    from batch3_reached [where svc = svc and sent = sent, OF bm tc r1 p1' r2 p2']
    show ?thesis by simp
  qed
  have some: "snd ?g = sent @ [?q1] \<or> snd ?g = sent @ [?q1, ?q2] \<or> snd ?g = sent @ [?q1, ?q2, ?q3]"
  proof (cases "svc sent ?q1")
    case (ApiRaises e)
    from batch1_api_failure [where svc = svc and sent = sent, OF bm tc this]
    show ?thesis by simp
  next
    case r1: (Completion t1)
    show ?thesis
    proof (cases "fst (parse_test_cases b t1)")
      case False
      then obtain err where "parse_test_cases b t1 = (False, [], Some err)"
        using parse_test_cases_failure by blast
      from batch1_parse_failure [where svc = svc and sent = sent, OF bm tc r1 this]
      show ?thesis by simp
    next
      case p1: True
      then obtain recs1 e1 where p1': "parse_test_cases b t1 = (True, recs1, e1)"
        by (cases "parse_test_cases b t1") auto
      show ?thesis
      proof (cases "svc (sent @ [?q1]) ?q2")
        case (ApiRaises e)
        from batch2_api_failure [where svc = svc and sent = sent, OF bm tc r1 p1' this]
        show ?thesis by simp
      next
        case r2: (Completion t2)
        show ?thesis
        proof (cases "fst (parse_test_cases b t2)")
          case False
          then obtain err where "parse_test_cases b t2 = (False, [], Some err)"
            using parse_test_cases_failure by blast
          from batch2_parse_failure [where svc = svc and sent = sent, OF bm tc r1 p1' r2 this]
          show ?thesis by simp
        next
          case True
          from all3 [OF r1 p1 r2 True] show ?thesis by simp
        qed
      qed
    qed
  qed
  have "\<exists>n \<in> {1, 2, 3 :: nat}. snd ?g = sent @ take n [?q1, ?q2, ?q3]"
    using some by (auto simp: numeral_2_eq_2 numeral_3_eq_3)
  with all3 show "(\<exists>n \<in> {1, 2, 3}.
         snd ?g =
           sent @ take n [(create_prompt_ui_happy_path brd 30, 12000),
                          (create_prompt_ui_validation brd 30, 12000),
                          (create_prompt_ui_edge_cases brd (target_count - 60), 12000)]) \<and>
      30 + 30 + (target_count - 60) = target_count \<and>
      (\<forall>t1 t2. svc sent (create_prompt_ui_happy_path brd 30, 12000) = Completion t1 \<and>
               fst (parse_test_cases b t1) \<and>
               svc (sent @ [(create_prompt_ui_happy_path brd 30, 12000)])
                   (create_prompt_ui_validation brd 30, 12000) = Completion t2 \<and>
               fst (parse_test_cases b t2) \<longrightarrow>
         snd ?g =
           sent @ [(create_prompt_ui_happy_path brd 30, 12000),
                   (create_prompt_ui_validation brd 30, 12000),
                   (create_prompt_ui_edge_cases brd (target_count - 60), 12000)])"
    unfolding create_prompt_ui_happy_path_def create_prompt_ui_validation_def
      create_prompt_ui_edge_cases_def
    by simp
next
  assume "\<not> (batch_mode \<and> 70 \<le> target_count)"
  from single_batch [OF this]
  show "snd (generate_test_cases b svc sent brd target_count batch_mode) =
          sent @ [(create_prompt_ui_happy_path brd target_count, 12000)]"
    by (simp add: create_prompt_ui_happy_path_def)
qed


theorem generate_test_cases_requests_witness:
  "snd (generate_test_cases example_builtins (\<lambda>sent req. Completion (Some example_reply)) []
          (ascii ''Login page'') 90 True) =
     [(Generate HappyPath (ascii ''Login page'') 30, 12000),
      (Generate Validation (ascii ''Login page'') 30, 12000),
      (Generate EdgeCases (ascii ''Login page'') 30, 12000)]
   \<and> snd (generate_test_cases example_builtins example_service [] (ascii ''Login page'') 50 True) =
     [(Generate HappyPath (ascii ''Login page'') 50, 12000)]"
proof
  let ?svc = "\<lambda>(sent::request list) (req::request). Completion (Some example_reply)"
  let ?brd = "ascii ''Login page''"
  have p: "fst (parse_test_cases example_builtins (Some example_reply))"
    by (simp add: example_parse)
  have c: "True \<and> (70::int) \<le> 90" by simp
  from generate_test_cases_requests [of True 90 example_builtins ?svc "[]" ?brd] c
  have "\<forall>t1 t2. ?svc [] (create_prompt_ui_happy_path ?brd 30, 12000) = Completion t1 \<and>
               fst (parse_test_cases example_builtins t1) \<and>
               ?svc ([] @ [(create_prompt_ui_happy_path ?brd 30, 12000)])
                   (create_prompt_ui_validation ?brd 30, 12000) = Completion t2 \<and>
               fst (parse_test_cases example_builtins t2) \<longrightarrow>
         snd (generate_test_cases example_builtins ?svc [] ?brd 90 True) =
           [] @ [(create_prompt_ui_happy_path ?brd 30, 12000),
                   (create_prompt_ui_validation ?brd 30, 12000),
                   (create_prompt_ui_edge_cases ?brd (90 - 60), 12000)]"
    by blast
  with p show "snd (generate_test_cases example_builtins ?svc [] ?brd 90 True) =
     [(Generate HappyPath ?brd 30, 12000), (Generate Validation ?brd 30, 12000),
      (Generate EdgeCases ?brd 30, 12000)]"
    by (simp add: create_prompt_ui_happy_path_def create_prompt_ui_validation_def
          create_prompt_ui_edge_cases_def)
next
  let ?brd = "ascii ''Login page''"
  have c: "\<not> (True \<and> (70::int) \<le> 50)" by simp
  from generate_test_cases_requests [of True 50 example_builtins example_service "[]" ?brd] c
  show "snd (generate_test_cases example_builtins example_service [] ?brd 50 True) =
     [(Generate HappyPath ?brd 50, 12000)]"
    by (simp add: create_prompt_ui_happy_path_def)
qed

section \<open>Properties of the URL lookup\<close>

lemma py_replace_literal:
  "123 \<notin> set t \<Longrightarrow> py_replace (t @ rest) (123 # k) new = t @ py_replace rest (123 # k) new"
  by (induction t) auto

lemma prefix_name:
  "125 \<notin> set k \<Longrightarrow> 125 \<notin> set n \<Longrightarrow> prefix (k @ [125]) (n @ 125 # rest) \<longleftrightarrow> k = n"
proof (induction k arbitrary: n)
  case Nil
  then show ?case by (cases n) auto
next
  case (Cons a k)
  then show ?case by (cases n) auto
qed

lemma py_replace_hole:
  assumes "brace_free n" and "brace_free k"
  shows "py_replace ([123] @ n @ [125] @ rest) ([123] @ k @ [125]) v =
           (if n = k then v else [123] @ n @ [125]) @ py_replace rest ([123] @ k @ [125]) v"
proof (cases "n = k")
  case True
  then show ?thesis by simp
next
  case False
  from assms have b: "125 \<notin> set k" "125 \<notin> set n" "123 \<notin> set (n @ [125])"
    by (simp_all add: brace_free_def)
  from False b(1,2) have "\<not> prefix (k @ [125]) (n @ 125 # rest)"
    by (simp add: prefix_name)
  then have "py_replace ([123] @ n @ [125] @ rest) ([123] @ k @ [125]) v =
               123 # py_replace ((n @ [125]) @ rest) (123 # k @ [125]) v"
    by simp
  also have "\<dots> = 123 # (n @ [125]) @ py_replace rest (123 # k @ [125]) v"
    using py_replace_literal [OF b(3), of rest "k @ [125]" v] by simp
  finally show ?thesis using False by simp
qed

lemma py_replace_render:
  assumes "\<forall>seg \<in> set segs. brace_free (seg_text seg)" and "brace_free k"
  shows "py_replace (render segs) ([123] @ k @ [125]) v = render (map (fill_one k v) segs)"
  using assms(1)
proof (induction segs)
  case Nil
  then show ?case by simp
next
  case (Cons seg segs)
  show ?case
  proof (cases seg)
    case (Lit t)
    with Cons.prems have "123 \<notin> set t" by (simp add: brace_free_def)
    then have "py_replace (t @ render segs) (123 # k @ [125]) v =
                 t @ py_replace (render segs) (123 # k @ [125]) v"
      by (rule py_replace_literal)
    with Lit Cons show ?thesis by simp
  next
    case (Hole n)
    with Cons.prems have "brace_free n" by simp
    from py_replace_hole [OF this assms(2), of "render segs" v] Hole Cons show ?thesis
      by simp
  qed
qed

lemma fill_one_brace_free:
  "brace_free v \<Longrightarrow> brace_free (seg_text seg) \<Longrightarrow> brace_free (seg_text (fill_one k v seg))"
  by (cases seg) auto

lemma fill_fill_one: "fill kwargs (fill_one k v seg) = fill ((k, v) # kwargs) seg"
  by (cases seg) auto

lemma filled_Nil: "filled [] segs = render segs"
  by (induction segs rule: render.induct) (simp_all add: filled_def)

lemma substitute_render:
  assumes "\<forall>seg \<in> set segs. brace_free (seg_text seg)"
    and "\<forall>(k, v) \<in> set kwargs. brace_free k \<and> brace_free v"
  shows "substitute kwargs (render segs) = filled kwargs segs"
  using assms
proof (induction kwargs arbitrary: segs)
  case Nil
  then show ?case by (simp add: filled_Nil)
next
  case (Cons kv kwargs)
  obtain k v where kv: "kv = (k, v)" by (cases kv)
  with Cons.prems have bf: "brace_free k" "brace_free v" by auto
  have "substitute (kv # kwargs) (render segs) =
          substitute kwargs (render (map (fill_one k v) segs))"
    using py_replace_render [OF Cons.prems(1) bf(1)] by (simp add: kv)
  also have "\<dots> = filled kwargs (map (fill_one k v) segs)"
    using Cons.prems bf(2) by (intro Cons.IH) (auto simp: fill_one_brace_free)
  also have "\<dots> = filled (kv # kwargs) segs"
    by (simp add: filled_def kv fill_fill_one comp_def)
  finally show ?case .
qed

text \<open>
  Claim C8, as the code has it. For a path template whose braces are only those of its
  placeholders, and supplied keys and values without braces, the URL is the base URL
  followed by the template in which every placeholder whose name is among the supplied
  keys is replaced by the corresponding value and every other placeholder is left as
  it is.
\<close>

theorem get_substitution:
  assumes "map_of (urls m) module_name = Some module_urls"
    and "map_of module_urls action = Some (render segs)"
    and "render segs \<noteq> []"
    and "\<forall>seg \<in> set segs. brace_free (seg_text seg)"
    and "\<forall>(k, v) \<in> set kwargs. brace_free k \<and> brace_free v"
  shows "get m module_name action kwargs = Some (base_url m @ filled kwargs segs) \<and>
         filled kwargs segs =
           concat (map (\<lambda>seg. case seg of
                                  Lit t \<Rightarrow> t
                                | Hole n \<Rightarrow> (case map_of kwargs n of
                                              Some v \<Rightarrow> v
                                            | None \<Rightarrow> [123] @ n @ [125])) segs)"
proof
  from assms(2) have "module_urls \<noteq> []" by auto
  with assms(1-3) substitute_render [OF assms(4,5)]
  show "get m module_name action kwargs = Some (base_url m @ filled kwargs segs)"
    by (simp add: get_def)
next
  have "fill kwargs = (\<lambda>seg. case seg of
                                  Lit t \<Rightarrow> t
                                | Hole n \<Rightarrow> (case map_of kwargs n of
                                              Some v \<Rightarrow> v
                                            | None \<Rightarrow> [123] @ n @ [125]))"
    by (rule ext) (simp split: segment.splits)
  then show "filled kwargs segs =
           concat (map (\<lambda>seg. case seg of
                                  Lit t \<Rightarrow> t
                                | Hole n \<Rightarrow> (case map_of kwargs n of
                                              Some v \<Rightarrow> v
                                            | None \<Rightarrow> [123] @ n @ [125])) segs)"
    by (simp add: filled_def)
qed

theorem get_substitution_witness:
  "get example_urls (ascii ''contract'') (ascii ''edit'') [(ascii ''id'', ascii ''123'')] =
     Some (ascii ''https://agency-uat.affina.com.vn/account/contract/edit/123'')
   \<and> get example_urls (ascii ''contract'') (ascii ''edit'') [(ascii ''page'', ascii ''2'')] =
     Some (ascii ''https://agency-uat.affina.com.vn/account/contract/edit/{id}'')"
proof
  let ?segs = "[Lit (ascii ''/account/contract/edit/''), Hole (ascii ''id'')]"
  let ?mu = "[(ascii ''list'', ascii ''/account/contract''),
              (ascii ''edit'', ascii ''/account/contract/edit/{id}'')]"
  have 1: "map_of (urls example_urls) (ascii ''contract'') = Some ?mu"
    by (simp add: example_urls_def ascii_def)
  have 2: "map_of ?mu (ascii ''edit'') = Some (render ?segs)"
    by (simp add: ascii_def)
  have 3: "render ?segs \<noteq> []" by (simp add: ascii_def)
  have 4: "\<forall>seg \<in> set ?segs. brace_free (seg_text seg)"
    by (simp add: brace_free_def ascii_def)
  have 5: "\<forall>(k, v) \<in> set [(ascii ''id'', ascii ''123'')]. brace_free k \<and> brace_free v"
    by (simp add: brace_free_def ascii_def)
  from get_substitution [OF 1 2 3 4 5]
  show "get example_urls (ascii ''contract'') (ascii ''edit'') [(ascii ''id'', ascii ''123'')] =
     Some (ascii ''https://agency-uat.affina.com.vn/account/contract/edit/123'')"
    by (simp add: filled_def example_urls_def ascii_def)
  have 6: "\<forall>(k, v) \<in> set [(ascii ''page'', ascii ''2'')]. brace_free k \<and> brace_free v"
    by (simp add: brace_free_def ascii_def)
  from get_substitution [OF 1 2 3 4 6]
  show "get example_urls (ascii ''contract'') (ascii ''edit'') [(ascii ''page'', ascii ''2'')] =
     Some (ascii ''https://agency-uat.affina.com.vn/account/contract/edit/{id}'')"
    by (simp add: filled_def example_urls_def ascii_def)
qed

text \<open>
  Claim C8 as it is worded fails when a supplied value holds a placeholder of its own.
  The replacements are made one key after the other, on the result of the one before:
  with \<open>id='{ref}'\<close> and \<open>ref='123'\<close> in this order, the placeholder \<open>{id}\<close> does not
  end as its value \<open>{ref}\<close> but as \<open>123\<close>; with the same pairs in the other order, the
  URL keeps a placeholder \<open>{ref}\<close> whose name is among the supplied keys.
\<close>

theorem get_nested_value_counterexample:
  "get example_urls (ascii ''contract'') (ascii ''edit'')
     [(ascii ''id'', ascii ''{ref}''), (ascii ''ref'', ascii ''123'')] =
     Some (ascii ''https://agency-uat.affina.com.vn/account/contract/edit/123'')
   \<and> get example_urls (ascii ''contract'') (ascii ''edit'')
     [(ascii ''ref'', ascii ''123''), (ascii ''id'', ascii ''{ref}'')] =
     Some (ascii ''https://agency-uat.affina.com.vn/account/contract/edit/{ref}'')
   \<and> filled [(ascii ''id'', ascii ''{ref}''), (ascii ''ref'', ascii ''123'')]
        [Lit (ascii ''/account/contract/edit/''), Hole (ascii ''id'')] =
     ascii ''/account/contract/edit/{ref}''"
  by (simp add: get_def example_urls_def filled_def ascii_def)

end
